theory Spec2Isabelle
  imports Main "HOL-Library.AList" "HOL-Library.List_Lexorder" "HOL-Library.Char_ord"
begin

section \<open>Python values\<close>

text \<open>
  The values \<^verbatim>\<open>yaml.safe_load\<close> builds: dictionaries, lists and scalars. Mapping keys are
  strings. Floating-point numbers, dates, binary data and sets, and mapping keys that are
  not strings, are outside the model. A dictionary is an association list in insertion
  order with distinct keys. A value of this type has no identity; the dictionaries the
  program writes to are objects of a store (see the orchestrator).
\<close>

datatype pyval =
    PNone
  | PBool bool
  | PInt int
  | PStr string
  | PList "pyval list"
  | PDict "(string \<times> pyval) list"

type_synonym pydict = "(string \<times> pyval) list"

text \<open>Truth value testing (\<^verbatim>\<open>if x\<close>, \<^verbatim>\<open>not x\<close>).\<close>

fun truthy :: "pyval \<Rightarrow> bool" where
  "truthy PNone = False"
| "truthy (PBool b) = b"
| "truthy (PInt i) = (i \<noteq> 0)"
| "truthy (PStr s) = (s \<noteq> [])"
| "truthy (PList l) = (l \<noteq> [])"
| "truthy (PDict d) = (d \<noteq> [])"

text \<open>\<^verbatim>\<open>d.get(k)\<close>, \<^verbatim>\<open>d.get(k, default)\<close> and \<^verbatim>\<open>d[k] = v\<close> on a dictionary.\<close>

definition dict_get :: "pydict \<Rightarrow> string \<Rightarrow> pyval" where
  "dict_get d k = (case map_of d k of None \<Rightarrow> PNone | Some v \<Rightarrow> v)"

definition dict_get_default :: "pydict \<Rightarrow> string \<Rightarrow> pyval \<Rightarrow> pyval" where
  "dict_get_default d k dflt = (case map_of d k of None \<Rightarrow> dflt | Some v \<Rightarrow> v)"

definition dict_set :: "pydict \<Rightarrow> string \<Rightarrow> pyval \<Rightarrow> pydict" where
  "dict_set d k v = AList.update k v d"

section \<open>Exceptions\<close>

text \<open>
  An exception of class \<^verbatim>\<open>Exception\<close>: \<^verbatim>\<open>str(e)\<close> is the message,
  \<^verbatim>\<open>getattr(e, 'lineno', None)\<close> the line number.
\<close>

datatype exn_class =
    AttributeError
  | TypeError
  | TemplateNotFound
  | TemplateSyntaxError
  | UndefinedError
  | TemplateRuntimeError
  | OtherException

datatype exn = Exn (exn_cls: exn_class) (exn_msg: string) (exn_lineno: "int option")

text \<open>
  The exceptions that are not of class \<^verbatim>\<open>Exception\<close>, which \<^verbatim>\<open>except Exception\<close> does not
  catch, and what a call of a collaborator known only by its interface may raise: an
  exception of either kind. What the program's own operations and Jinja2 raise is of
  class \<^verbatim>\<open>Exception\<close>; a template that ends the interpreter from inside an expression,
  and a signal that interrupts the program, are outside the model.
\<close>

datatype base_exception = SystemExit | KeyboardInterrupt | GeneratorExit

datatype raised = Exc exn | BaseExc base_exception

fun type_name :: "pyval \<Rightarrow> string" where
  "type_name PNone = ''NoneType''"
| "type_name (PBool _) = ''bool''"
| "type_name (PInt _) = ''int''"
| "type_name (PStr _) = ''str''"
| "type_name (PList _) = ''list''"
| "type_name (PDict _) = ''dict''"

text \<open>\<^verbatim>\<open>x.get(k, default)\<close> on an arbitrary value: only a dictionary has the method.\<close>

definition py_get :: "pyval \<Rightarrow> string \<Rightarrow> pyval \<Rightarrow> exn + pyval" where
  "py_get x k dflt =
     (case x of
        PDict d \<Rightarrow> Inr (dict_get_default d k dflt)
      | _ \<Rightarrow> Inl (Exn AttributeError
                 ([CHR 0x27] @ type_name x @ [CHR 0x27] @ '' object has no attribute '' @
                  [CHR 0x27] @ ''get'' @ [CHR 0x27]) None))"

section \<open>Strings\<close>

text \<open>\<^verbatim>\<open>s.split('\n')\<close>: one more piece than there are newlines.\<close>

fun split_nl :: "string \<Rightarrow> string list" where
  "split_nl [] = [[]]"
| "split_nl (c # cs) =
     (if c = CHR 0x0A then [] # split_nl cs
      else (case split_nl cs of [] \<Rightarrow> [[c]] | l # ls \<Rightarrow> (c # l) # ls))"

text \<open>The characters \<^verbatim>\<open>str.strip()\<close> removes, among the code points below 256.\<close>

definition is_space :: "char \<Rightarrow> bool" where
  "is_space c =
     (let n = (of_char c :: nat)
      in (9 \<le> n \<and> n \<le> 13) \<or> (28 \<le> n \<and> n \<le> 32) \<or> n = 133 \<or> n = 160)"

text \<open>\<^verbatim>\<open>if line.strip()\<close>: the line has a character that is not white space.\<close>

definition strip_nonempty :: "string \<Rightarrow> bool" where
  "strip_nonempty line = list_ex (\<lambda>c. \<not> is_space c) line"

text \<open>\<^verbatim>\<open>len([line for line in config.split('\n') if line.strip()])\<close>\<close>

definition count_config_lines :: "string \<Rightarrow> nat" where
  "count_config_lines config = length (filter strip_nonempty (split_nl config))"

text \<open>Decimal rendering of a natural number, as an f-string does.\<close>

fun digit_char :: "nat \<Rightarrow> char" where
  "digit_char n = char_of (48 + n)"

fun str_nat :: "nat \<Rightarrow> string" where
  "str_nat n = (if n < 10 then [digit_char n] else str_nat (n div 10) @ [digit_char (n mod 10)])"

declare str_nat.simps [simp del]



section \<open>Comparison and sorting\<close>

fun is_intlike :: "pyval \<Rightarrow> bool" where
  "is_intlike (PInt _) = True"
| "is_intlike (PBool _) = True"
| "is_intlike _ = False"

fun int_of :: "pyval \<Rightarrow> int" where
  "int_of (PInt i) = i"
| "int_of (PBool b) = (if b then 1 else 0)"
| "int_of _ = 0"

text \<open>
  \<^verbatim>\<open>x == y\<close>. Booleans are the integers 0 and 1; values of different kinds are unequal;
  lists are equal element by element, dictionaries key by key whatever the order.
\<close>

function py_eq :: "pyval \<Rightarrow> pyval \<Rightarrow> bool" where
  "py_eq x y =
     (case (x, y) of
        (PNone, PNone) \<Rightarrow> True
      | (PStr s, PStr t) \<Rightarrow> s = t
      | (PList xs, PList ys) \<Rightarrow>
          length xs = length ys \<and> list_all (\<lambda>(a, b). py_eq a b) (zip xs ys)
      | (PDict d, PDict e) \<Rightarrow>
          length d = length e
          \<and> list_all (\<lambda>(k, v). case map_of e k of None \<Rightarrow> False | Some w \<Rightarrow> py_eq v w) d
      | _ \<Rightarrow> is_intlike x \<and> is_intlike y \<and> int_of x = int_of y)"
  by pat_completeness auto
termination
  apply (relation "measure (\<lambda>(x, y). size x)")
    apply simp
   apply (auto dest!: set_zip_leftD simp add: less_Suc_eq_le size_list_estimation')
  done

declare py_eq.simps [simp del]

text \<open>
  \<^verbatim>\<open>x < y\<close>: None when Python raises \<^verbatim>\<open>TypeError\<close>. Numbers compare with numbers, strings with
  strings by code point, lists with lists at the first position where they differ, the
  shorter list first when one is a prefix of the other.
\<close>

fun py_lt :: "pyval \<Rightarrow> pyval \<Rightarrow> bool option" where
  "py_lt (PList []) (PList ys) = Some (ys \<noteq> [])"
| "py_lt (PList (x # xs)) (PList []) = Some False"
| "py_lt (PList (x # xs)) (PList (y # ys)) =
     (if py_eq x y then py_lt (PList xs) (PList ys) else py_lt x y)"
| "py_lt (PStr s) (PStr t) = Some (s < t)"
| "py_lt x y = (if is_intlike x \<and> is_intlike y then Some (int_of x < int_of y) else None)"

text \<open>
  \<^verbatim>\<open>sorted(xs, key=...)\<close> and \<^verbatim>\<open>xs.sort(key=...)\<close>. Python's sort is stable, and a stable sort
  has one result, built here by insertion from the right. The sort raises \<^verbatim>\<open>TypeError\<close>
  exactly when two of the keys cannot be compared: a sort that ends has compared every two
  neighbours of its result, and no value that compares with both of two incomparable
  values lies between them. The text of the exception names the first pair the sort
  meets and is not reproduced.
\<close>

fun py_insort :: "('a \<Rightarrow> pyval) \<Rightarrow> 'a \<Rightarrow> 'a list \<Rightarrow> 'a list" where
  "py_insort key x [] = [x]"
| "py_insort key x (y # ys) =
     (if py_lt (key y) (key x) = Some True then y # py_insort key x ys else x # y # ys)"

definition py_sort :: "('a \<Rightarrow> pyval) \<Rightarrow> 'a list \<Rightarrow> 'a list" where
  "py_sort key xs = foldr (py_insort key) xs []"

fun all_comparable :: "pyval list \<Rightarrow> bool" where
  "all_comparable [] = True"
| "all_comparable (k # ks) = (list_all (\<lambda>k'. py_lt k k' \<noteq> None) ks \<and> all_comparable ks)"

definition py_sorted :: "('a \<Rightarrow> pyval) \<Rightarrow> 'a list \<Rightarrow> exn + 'a list" where
  "py_sorted key xs =
     (if all_comparable (map key xs) then Inr (py_sort key xs)
      else Inl (Exn TypeError ''comparison not supported between instances'' None))"

section \<open>Template engine\<close>

text \<open>
  Rendering is not a function of the template and its variables alone: a template may use
  Jinja2's \<^verbatim>\<open>random\<close> filter or \<^verbatim>\<open>lipsum()\<close>, which draw on the state of Python's random
  generator. A compiled template is therefore its \<^verbatim>\<open>render(**variables)\<close> as a function of
  the variables and the generator's state, giving the text or the exception raised, and
  the generator's next state.
\<close>

type_synonym rng = nat

type_synonym template = "pydict \<Rightarrow> rng \<Rightarrow> (exn + string) \<times> rng"

text \<open>
  The engine with what it sees of the world. The files do not change while the engine
  runs, and the template directory can always be listed and its paths examined:
  \<^item> \<open>dir_entries\<close>: the names in the template directory;
  \<^item> \<open>path_exists name\<close>: whether \<^verbatim>\<open>(template_dir / name).exists()\<close>, which follows
    symbolic links and is asked of any path, not only of listed names;
  \<^item> \<open>loader name\<close>: what the loader of the Jinja2 environment does with a name: the
    exception of a missing or malformed file, or the compiled template;
  \<^item> \<open>env_cache\<close>: the compiled templates the Jinja2 environment \<^verbatim>\<open>self.env\<close> keeps (it
    holds 400 of them; the bound is not modelled);
  \<^item> \<open>template_cache\<close>: the engine's own \<^verbatim>\<open>self.template_cache\<close>;
  \<^item> \<open>random_state\<close>: the state of the random generator.
\<close>

record TemplateEngine =
  dir_entries :: "string list"
  path_exists :: "string \<Rightarrow> bool"
  loader :: "string \<Rightarrow> exn + template"
  env_cache :: "(string \<times> template) list"
  template_cache :: "(string \<times> template) list"
  random_state :: rng

definition ends_with :: "string \<Rightarrow> string \<Rightarrow> bool" where
  "ends_with suffix s = (length suffix \<le> length s \<and> drop (length s - length suffix) s = suffix)"

text \<open>\<^verbatim>\<open>list_templates\<close>: the names matching \<^verbatim>\<open>*.j2\<close>, sorted.\<close>

definition list_templates :: "TemplateEngine \<Rightarrow> string list" where
  "list_templates eng = sort (filter (ends_with ''.j2'') (dir_entries eng))"

definition template_exists :: "TemplateEngine \<Rightarrow> string \<Rightarrow> bool" where
  "template_exists eng template_name = path_exists eng template_name"

text \<open>
  \<^verbatim>\<open>self.env.get_template(name)\<close>: a cached template is returned as it is (the environment
  reloads only a file that changed); otherwise the loader is asked, and a template it
  compiles is cached.
\<close>

definition env_get_template :: "TemplateEngine \<Rightarrow> string \<Rightarrow> (exn + template) \<times> TemplateEngine" where
  "env_get_template eng template_name =
     (case map_of (env_cache eng) template_name of
        Some t \<Rightarrow> (Inr t, eng)
      | None \<Rightarrow>
          (case loader eng template_name of
             Inl e \<Rightarrow> (Inl e, eng)
           | Inr t \<Rightarrow> (Inr t, eng\<lparr>env_cache := AList.update template_name t (env_cache eng)\<rparr>)))"

text \<open>\<^verbatim>\<open>template.render(**variables)\<close>: the generator moves on whether or not rendering raises.\<close>

definition render :: "TemplateEngine \<Rightarrow> template \<Rightarrow> pydict \<Rightarrow> (exn + string) \<times> TemplateEngine" where
  "render eng t variables =
     (case t variables (random_state eng) of
        (r, rs) \<Rightarrow> (r, eng\<lparr>random_state := rs\<rparr>))"

definition minimal_vars :: "string \<Rightarrow> pydict" where
  "minimal_vars template_name =
     [(''hostname'', PStr ''TEST-DEVICE''),
      (''device_name'', PStr ''test-device''),
      (''management_ip'', PStr ''192.168.1.1''),
      (''vlans'', PDict []),
      (''interfaces'', PDict []),
      (''port_config'', PDict []),
      (''stp'', PDict [(''mode'', PStr ''rstp''), (''priority'', PInt 32768)]),
      (''routing'', PDict [(''ospf'', PDict [(''process_id'', PInt 1),
                                             (''router_id'', PStr ''1.1.1.1''),
                                             (''area'', PInt 0),
                                             (''networks'', PList [])])]),
      (''nat'', PDict [(''inside_interfaces'', PList []), (''outside_interfaces'', PList [])]),
      (''features'', PList []),
      (''mgmt_vlan'', PInt 10),
      (''generation_time'', PStr ''2025-09-01 12:00:00''),
      (''template_name'', PStr template_name)]"

text \<open>The three \<^verbatim>\<open>except\<close> clauses of \<^verbatim>\<open>validate_template_syntax\<close>, in their order.\<close>

definition validation_failure :: "exn \<Rightarrow> pydict" where
  "validation_failure e =
     (if exn_cls e = TemplateSyntaxError then
        [(''valid'', PBool False),
         (''error'', PStr (''Syntax error: '' @ exn_msg e)),
         (''line_number'', (case exn_lineno e of None \<Rightarrow> PNone | Some n \<Rightarrow> PInt n))]
      else if exn_cls e = UndefinedError then
        [(''valid'', PBool False), (''error'', PStr (''Undefined variable: '' @ exn_msg e))]
      else
        [(''valid'', PBool False), (''error'', PStr (''Validation error: '' @ exn_msg e))])"

text \<open>
  \<^verbatim>\<open>validate_template_syntax\<close>: the result dictionary, and the engine as the call leaves
  it (the environment's cache and the random generator may have moved).
\<close>

definition validate_template_syntax :: "TemplateEngine \<Rightarrow> string \<Rightarrow> pydict \<times> TemplateEngine" where
  "validate_template_syntax eng template_name =
     (if \<not> template_exists eng template_name then
        ([(''valid'', PBool False),
          (''error'', PStr (''Template file not found: '' @ template_name))], eng)
      else
        (case env_get_template eng template_name of
           (Inl e, eng1) \<Rightarrow> (validation_failure e, eng1)
         | (Inr t, eng1) \<Rightarrow>
             (case render eng1 t (minimal_vars template_name) of
                (Inl e, eng2) \<Rightarrow> (validation_failure e, eng2)
              | (Inr rendered, eng2) \<Rightarrow>
                  ([(''valid'', PBool True),
                    (''length'', PInt (int (length rendered))),
                    (''lines'', PInt (int (length (split_nl rendered))))], eng2))))"

text \<open>The loop of \<^verbatim>\<open>validate_all_templates\<close>: \<^verbatim>\<open>results[template_name] = result\<close>.\<close>

fun validate_loop ::
  "string list \<Rightarrow> (string \<times> pydict) list \<Rightarrow> TemplateEngine \<Rightarrow> (string \<times> pydict) list \<times> TemplateEngine" where
  "validate_loop [] results eng = (results, eng)"
| "validate_loop (template_name # rest) results eng =
     (case validate_template_syntax eng template_name of
        (result, eng') \<Rightarrow> validate_loop rest (AList.update template_name result results) eng')"

definition validate_all_templates :: "TemplateEngine \<Rightarrow> (string \<times> pydict) list \<times> TemplateEngine" where
  "validate_all_templates eng = validate_loop (list_templates eng) [] eng"

text \<open>\<^verbatim>\<open>get_template\<close>: the engine's cache first, then the environment; every exception gives None.\<close>

definition get_template :: "TemplateEngine \<Rightarrow> string \<Rightarrow> template option \<times> TemplateEngine" where
  "get_template eng template_name =
     (case map_of (template_cache eng) template_name of
        Some t \<Rightarrow> (Some t, eng)
      | None \<Rightarrow>
          (case env_get_template eng template_name of
             (Inr t, eng1) \<Rightarrow>
               (Some t, eng1\<lparr>template_cache := AList.update template_name t (template_cache eng1)\<rparr>)
           | (Inl e, eng1) \<Rightarrow> (None, eng1)))"

definition defaults :: pydict where
  "defaults =
     [(''hostname'', PStr ''DEVICE''),
      (''device_name'', PStr ''device''),
      (''management_ip'', PStr ''192.168.1.1''),
      (''vlans'', PDict []),
      (''interfaces'', PDict []),
      (''port_config'', PDict []),
      (''stp'', PDict [(''mode'', PStr ''rstp''), (''priority'', PInt 32768)]),
      (''routing'', PDict [(''ospf'', PDict [(''process_id'', PInt 1),
                                             (''router_id'', PStr ''1.1.1.1''),
                                             (''area'', PInt 0),
                                             (''networks'', PList [])]),
                           (''static_routes'', PList [])]),
      (''nat'', PDict [(''inside_interfaces'', PList []), (''outside_interfaces'', PList [])]),
      (''features'', PList []),
      (''mgmt_vlan'', PInt 10),
      (''generation_time'', PStr ''2025-09-01 12:00:00''),
      (''template_name'', PStr ''unknown'')]"

text \<open>\<^verbatim>\<open>_prepare_variables\<close>: a copy of the input, then each default whose key is missing.\<close>

fun add_defaults :: "pydict \<Rightarrow> pydict \<Rightarrow> pydict" where
  "add_defaults [] prepared = prepared"
| "add_defaults ((key, default_value) # rest) prepared =
     add_defaults rest
       (if map_of prepared key = None then dict_set prepared key default_value else prepared)"

definition prepare_variables :: "pydict \<Rightarrow> pydict" where
  "prepare_variables variables = add_defaults defaults variables"

definition render_template :: "TemplateEngine \<Rightarrow> string \<Rightarrow> pydict \<Rightarrow> string option \<times> TemplateEngine" where
  "render_template eng template_name variables =
     (case get_template eng template_name of
        (None, eng1) \<Rightarrow> (None, eng1)
      | (Some t, eng1) \<Rightarrow>
          (case render eng1 t (prepare_variables variables) of
             (Inl e, eng2) \<Rightarrow> (None, eng2)
           | (Inr rendered, eng2) \<Rightarrow> (Some rendered, eng2)))"

definition template_mapping :: "(string \<times> string) list" where
  "template_mapping =
     [(''management'', ''management_switch.j2''),
      (''core'', ''core_switch.j2''),
      (''access'', ''access_switch.j2''),
      (''edge'', ''edge_router.j2''),
      (''router'', ''edge_router.j2'')]"

text \<open>
  \<^verbatim>\<open>template_mapping.get(device_type)\<close>: a list or a dictionary is unhashable and raises;
  every other value that is not one of the five strings is simply absent.
\<close>

definition mapping_get :: "pyval \<Rightarrow> exn + string option" where
  "mapping_get device_type =
     (case device_type of
        PStr s \<Rightarrow> Inr (map_of template_mapping s)
      | PList _ \<Rightarrow> Inl (Exn TypeError (''unhashable type: '' @ [CHR 0x27] @ ''list'' @ [CHR 0x27]) None)
      | PDict _ \<Rightarrow> Inl (Exn TypeError (''unhashable type: '' @ [CHR 0x27] @ ''dict'' @ [CHR 0x27]) None)
      | _ \<Rightarrow> Inr None)"

text \<open>
  \<^verbatim>\<open>generate_config\<close> writes \<^verbatim>\<open>template_name\<close> and \<^verbatim>\<open>device_type\<close> into the dictionary
  it was given, which is the caller's object: the dictionary after the call is returned
  next to the configuration.
\<close>

definition generate_config ::
  "TemplateEngine \<Rightarrow> pyval \<Rightarrow> pydict \<Rightarrow> exn + (string option \<times> pydict \<times> TemplateEngine)" where
  "generate_config eng device_type device_vars =
     (case mapping_get device_type of
        Inl e \<Rightarrow> Inl e
      | Inr None \<Rightarrow> Inr (None, device_vars, eng)
      | Inr (Some template_name) \<Rightarrow>
          (if template_name = [] then Inr (None, device_vars, eng)
           else
             (let device_vars1 = dict_set device_vars ''template_name'' (PStr template_name);
                  device_vars2 = dict_set device_vars1 ''device_type'' device_type
              in case render_template eng template_name device_vars2 of
                   (config, eng') \<Rightarrow> Inr (config, device_vars2, eng'))))"

section \<open>Deployment orchestrator\<close>

datatype DeploymentStatus = PENDING | IN_PROGRESS | SUCCESS | FAILED | SKIPPED | ROLLED_BACK

text \<open>
  The two result classes, without their \<^verbatim>\<open>execution_time\<close>: wall-clock time is not
  modelled. A result dictionary is keyed by device name, in insertion order.
\<close>

record DeviceResult =
  device_name :: pyval
  status :: DeploymentStatus
  message :: string
  config_lines :: nat
  error :: "string option"

record DeploymentResult =
  total_devices :: nat
  successful :: nat
  failed :: nat
  skipped :: nat
  results :: "(pyval \<times> DeviceResult) list"
  summary :: string

text \<open>
  The device manager is a collaborator known by its interface. Each call is recorded;
  what a call returns or raises may depend on the call and on every call made before it.
  A call may raise any exception, of class \<^verbatim>\<open>Exception\<close> or not.
\<close>

datatype dm_call =
    Connect pyval pyval pydict
  | DeployConfig pyval string bool
  | Disconnect pyval

type_synonym device_manager = "dm_call list \<Rightarrow> dm_call \<Rightarrow> raised + bool"

text \<open>
  The state of an orchestrator with its two collaborators. The device dictionaries are
  objects: \<open>objects\<close> is the store that holds them, an address is a position in it, and
  \<open>devices\<close> (\<^verbatim>\<open>self.devices\<close>) is a list of addresses, as is every sorted copy of it. Two
  entries of \<open>devices\<close> with one address are one dictionary. Of \<open>inventory\<close> only
  \<^verbatim>\<open>global_settings\<close> and \<^verbatim>\<open>deployment_strategy\<close> are read after loading.
\<close>

record DeploymentOrchestrator =
  inventory :: pyval
  objects :: "pydict list"
  devices :: "nat list"
  deployment_history :: "DeploymentResult list"
  current_deployment :: "DeploymentResult option"
  template_engine :: TemplateEngine
  dm_trace :: "dm_call list"

text \<open>\<^verbatim>\<open>lambda d: d.get('deployment_order', 999)\<close>\<close>

definition deployment_order :: "pydict \<Rightarrow> pyval" where
  "deployment_order d = dict_get_default d ''deployment_order'' (PInt 999)"

subsection \<open>Loading the inventory\<close>






text \<open>\<^verbatim>\<open>get_devices\<close>: a copy of the list, holding the same dictionary objects.\<close>

definition get_devices :: "DeploymentOrchestrator \<Rightarrow> nat list" where
  "get_devices st = devices st"

text \<open>\<^verbatim>\<open>get_deployment_sequence\<close>: a sorted copy of the list, holding the same objects.\<close>

definition get_deployment_sequence :: "DeploymentOrchestrator \<Rightarrow> exn + nat list" where
  "get_deployment_sequence st = py_sorted (\<lambda>a. deployment_order (objects st ! a)) (devices st)"

text \<open>The dictionaries a list of addresses refers to.\<close>

definition deref :: "DeploymentOrchestrator \<Rightarrow> nat list \<Rightarrow> pydict list" where
  "deref st refs = map (\<lambda>a. objects st ! a) refs"

subsection \<open>The validation gate\<close>

text \<open>
  \<^verbatim>\<open>used_templates\<close>: the source collects \<^verbatim>\<open>f"{template_name}.j2"\<close> in a set and reads the
  set only to see whether it is empty; the model keeps the template values that were
  added, without the formatting.
\<close>

definition used_templates :: "DeploymentOrchestrator \<Rightarrow> pyval list" where
  "used_templates st = filter truthy (map (\<lambda>device. dict_get device ''template'') (deref st (devices st)))"

text \<open>\<^verbatim>\<open>result.get('valid', False)\<close> for every entry of the validation results.\<close>

definition all_valid :: "(string \<times> pydict) list \<Rightarrow> bool" where
  "all_valid validation_results =
     list_all (\<lambda>(template_name, result). truthy (dict_get_default result ''valid'' (PBool False)))
       validation_results"

definition validate_templates :: "DeploymentOrchestrator \<Rightarrow> bool \<times> DeploymentOrchestrator" where
  "validate_templates st =
     (if used_templates st = [] then (True, st)
      else
        (case validate_all_templates (template_engine st) of
           (validation_results, eng') \<Rightarrow>
             (all_valid validation_results, st\<lparr>template_engine := eng'\<rparr>)))"

subsection \<open>Deploying one device\<close>

text \<open>\<^verbatim>\<open>self.inventory.get('global_settings', {}).get('dry_run_default', True)\<close>\<close>

definition dry_run_default :: "DeploymentOrchestrator \<Rightarrow> exn + pyval" where
  "dry_run_default st =
     (case py_get (inventory st) ''global_settings'' (PDict []) of
        Inl e \<Rightarrow> Inl e
      | Inr global_settings \<Rightarrow> py_get global_settings ''dry_run_default'' (PBool True))"

definition resolve_dry_run :: "DeploymentOrchestrator \<Rightarrow> pyval \<Rightarrow> exn + pyval" where
  "resolve_dry_run st dry_run = (if dry_run = PNone then dry_run_default st else Inr dry_run)"

definition connection_params :: "pyval \<Rightarrow> pyval \<Rightarrow> exn + pydict" where
  "connection_params device_type credentials =
     (case py_get credentials ''username'' (PStr ''admin'') of
        Inl e \<Rightarrow> Inl e
      | Inr username \<Rightarrow>
          (case py_get credentials ''password'' PNone of
             Inl e \<Rightarrow> Inl e
           | Inr password \<Rightarrow>
               (case py_get credentials ''ssh_key_file'' PNone of
                  Inl e \<Rightarrow> Inl e
                | Inr ssh_key_file \<Rightarrow>
                    Inr [(''device_type'', device_type),
                         (''username'', username),
                         (''password'', password),
                         (''ssh_key_file'', ssh_key_file)])))"

text \<open>A call of the device manager: the answer of the collaborator, and the call recorded.\<close>

definition dm_invoke ::
  "device_manager \<Rightarrow> DeploymentOrchestrator \<Rightarrow> dm_call \<Rightarrow>
   (raised + bool) \<times> DeploymentOrchestrator" where
  "dm_invoke dm st call = (dm (dm_trace st) call, st\<lparr>dm_trace := dm_trace st @ [call]\<rparr>)"

definition failed_result :: "pyval \<Rightarrow> string \<Rightarrow> nat \<Rightarrow> string \<Rightarrow> DeviceResult" where
  "failed_result name msg n err =
     \<lparr>device_name = name, status = FAILED, message = msg, config_lines = n, error = Some err\<rparr>"

definition success_result :: "pyval \<Rightarrow> nat \<Rightarrow> DeviceResult" where
  "success_result name n =
     \<lparr>device_name = name, status = SUCCESS,
      message = ''Successfully deployed '' @ str_nat n @ '' configuration lines'',
      config_lines = n, error = None\<rparr>"

text \<open>
  The \<^verbatim>\<open>try\<close> block of \<^verbatim>\<open>deploy_device\<close> from \<^verbatim>\<open>generate_config\<close> on. The result is
  the value returned or the exception raised, the device dictionary as the call leaves it,
  and the state.
\<close>

definition deploy_generated ::
  "device_manager \<Rightarrow> DeploymentOrchestrator \<Rightarrow> pydict \<Rightarrow> pyval \<Rightarrow> pyval \<Rightarrow> pyval \<Rightarrow>
   (raised + DeviceResult) \<times> pydict \<times> DeploymentOrchestrator" where
  "deploy_generated dm st device_config name role dry_run =
     (case generate_config (template_engine st) role device_config of
        Inl e \<Rightarrow> (Inl (Exc e), device_config, st)
      | Inr (config, device_config', eng') \<Rightarrow>
          (let st1 = st\<lparr>template_engine := eng'\<rparr>
           in if config = None \<or> config = Some [] then
                (Inr (failed_result name ''Failed to generate configuration'' 0
                        ''Template rendering failed''), device_config', st1)
              else
                (let n = count_config_lines (the config)
                 in if truthy dry_run then (Inr (success_result name n), device_config', st1)
                    else
                      (case dm_invoke dm st1 (DeployConfig name (the config) False) of
                         (Inl e, st2) \<Rightarrow> (Inl e, device_config', st2)
                       | (Inr deployment_success, st2) \<Rightarrow>
                           (case dm_invoke dm st2 (Disconnect name) of
                              (Inl e, st3) \<Rightarrow> (Inl e, device_config', st3)
                            | (Inr disconnected, st3) \<Rightarrow>
                                (if deployment_success then
                                   (Inr (success_result name n), device_config', st3)
                                 else
                                   (Inr (failed_result name ''Configuration deployment failed'' n
                                           ''Deployment execution failed''),
                                    device_config', st3)))))))"

text \<open>The whole \<^verbatim>\<open>try\<close> block.\<close>

definition deploy_device_try ::
  "device_manager \<Rightarrow> DeploymentOrchestrator \<Rightarrow> pydict \<Rightarrow> pyval \<Rightarrow> pyval \<Rightarrow>
   (raised + DeviceResult) \<times> pydict \<times> DeploymentOrchestrator" where
  "deploy_device_try dm st device_config name dry_run0 =
     (case resolve_dry_run st dry_run0 of
        Inl e \<Rightarrow> (Inl (Exc e), device_config, st)
      | Inr dry_run \<Rightarrow>
          (let device_ip = dict_get device_config ''ip'';
               device_type = dict_get_default device_config ''device_type'' (PStr ''huawei'');
               template_name = dict_get device_config ''template'';
               role = dict_get_default device_config ''role'' (PStr ''unknown'')
           in if \<not> truthy device_ip then
                (Inr (failed_result name ''No IP address specified'' 0 ''Missing device IP address''),
                 device_config, st)
              else if \<not> truthy template_name then
                (Inr (failed_result name ''No template specified'' 0 ''Missing template name''),
                 device_config, st)
              else
                (case connection_params device_type
                        (dict_get_default device_config ''credentials'' (PDict [])) of
                   Inl e \<Rightarrow> (Inl (Exc e), device_config, st)
                 | Inr params \<Rightarrow>
                     (if \<not> truthy dry_run then
                        (case dm_invoke dm st (Connect name device_ip params) of
                           (Inl e, st1) \<Rightarrow> (Inl e, device_config, st1)
                         | (Inr connected, st1) \<Rightarrow>
                             (if \<not> connected then
                                (Inr (failed_result name ''Failed to connect to device'' 0
                                        ''SSH connection failed''), device_config, st1)
                              else deploy_generated dm st1 device_config name role dry_run))
                      else deploy_generated dm st device_config name role dry_run))))"

text \<open>
  \<^verbatim>\<open>deploy_device\<close>: the \<^verbatim>\<open>try\<close> block and its \<^verbatim>\<open>except Exception\<close> handler, which
  catches the exceptions of class \<^verbatim>\<open>Exception\<close>. Inl is an exception leaving the method.
\<close>

definition deploy_device ::
  "device_manager \<Rightarrow> DeploymentOrchestrator \<Rightarrow> pydict \<Rightarrow> pyval \<Rightarrow>
   base_exception + (DeviceResult \<times> pydict \<times> DeploymentOrchestrator)" where
  "deploy_device dm st device_config dry_run =
     (let name = dict_get_default device_config ''name'' (PStr ''unknown'')
      in case deploy_device_try dm st device_config name dry_run of
           (Inr result, device_config', st') \<Rightarrow> Inr (result, device_config', st')
         | (Inl (Exc e), device_config', st') \<Rightarrow>
             Inr (failed_result name ''Deployment failed with exception'' 0 (exn_msg e),
                  device_config', st')
         | (Inl (BaseExc b), device_config', st') \<Rightarrow> Inl b)"

subsection \<open>Deploying all devices\<close>

text \<open>
  \<^verbatim>\<open>results[device_name] = result\<close>. A list or a dictionary is unhashable. Keys that Python
  holds equal (True and 1, False and 0) are one key, kept as the integer.
\<close>

definition result_key :: "pyval \<Rightarrow> pyval" where
  "result_key name = (case name of PBool b \<Rightarrow> PInt (if b then 1 else 0) | _ \<Rightarrow> name)"

definition results_set ::
  "(pyval \<times> DeviceResult) list \<Rightarrow> pyval \<Rightarrow> DeviceResult \<Rightarrow> exn + (pyval \<times> DeviceResult) list" where
  "results_set res key r =
     (case key of
        PList _ \<Rightarrow> Inl (Exn TypeError (''unhashable type: '' @ [CHR 0x27] @ ''list'' @ [CHR 0x27]) None)
      | PDict _ \<Rightarrow> Inl (Exn TypeError (''unhashable type: '' @ [CHR 0x27] @ ''dict'' @ [CHR 0x27]) None)
      | _ \<Rightarrow> Inr (AList.update (result_key key) r res))"

text \<open>\<^verbatim>\<open>results[device_name]\<close>, read.\<close>

definition results_get :: "(pyval \<times> DeviceResult) list \<Rightarrow> pyval \<Rightarrow> DeviceResult option" where
  "results_get res name = map_of res (result_key name)"

text \<open>\<^verbatim>\<open>self.inventory.get('deployment_strategy', {}).get('rollback_on_failure', True)\<close>\<close>

definition rollback_on_failure :: "DeploymentOrchestrator \<Rightarrow> exn + pyval" where
  "rollback_on_failure st =
     (case py_get (inventory st) ''deployment_strategy'' (PDict []) of
        Inl e \<Rightarrow> Inl e
      | Inr deployment_strategy \<Rightarrow> py_get deployment_strategy ''rollback_on_failure'' (PBool True))"

definition skipped_result :: "pyval \<Rightarrow> DeviceResult" where
  "skipped_result name =
     \<lparr>device_name = name, status = SKIPPED,
      message = ''Skipped due to previous deployment failures'',
      config_lines = 0, error = None\<rparr>"

text \<open>\<^verbatim>\<open>device_config.get('name', 'unknown')\<close>\<close>

definition name_of :: "pydict \<Rightarrow> pyval" where
  "name_of device_config = dict_get_default device_config ''name'' (PStr ''unknown'')"

text \<open>
  The loop over the deployment sequence. The accumulator is
  \<open>(results, successful, failed, skipped)\<close>. A device is an address; what
  \<^verbatim>\<open>deploy_device\<close> did to the dictionary is what the store holds at that address
  afterwards.
\<close>

type_synonym counters = "(pyval \<times> DeviceResult) list \<times> nat \<times> nat \<times> nat"

fun deploy_loop ::
  "device_manager \<Rightarrow> pyval \<Rightarrow> nat list \<Rightarrow> counters \<Rightarrow> DeploymentOrchestrator \<Rightarrow>
   raised + (counters \<times> DeploymentOrchestrator)" where
  "deploy_loop dm dry_run [] acc st = Inr (acc, st)"
| "deploy_loop dm dry_run (a # rest) (res, n_successful, n_failed, n_skipped) st =
     (let device_config = objects st ! a;
          name = name_of device_config
      in case rollback_on_failure st of
           Inl e \<Rightarrow> Inl (Exc e)
         | Inr rollback \<Rightarrow>
             (if truthy rollback \<and> n_failed > 0 then
                (case results_set res name (skipped_result name) of
                   Inl e \<Rightarrow> Inl (Exc e)
                 | Inr res' \<Rightarrow>
                     deploy_loop dm dry_run rest (res', n_successful, n_failed, n_skipped + 1) st)
              else
                (case deploy_device dm st device_config dry_run of
                   Inl b \<Rightarrow> Inl (BaseExc b)
                 | Inr (result, device_config', st') \<Rightarrow>
                     (let st'' = st'\<lparr>objects := (objects st')[a := device_config']\<rparr>
                      in case results_set res name result of
                           Inl e \<Rightarrow> Inl (Exc e)
                         | Inr res' \<Rightarrow>
                             (if status result = SUCCESS then
                                deploy_loop dm dry_run rest
                                  (res', n_successful + 1, n_failed, n_skipped) st''
                              else
                                deploy_loop dm dry_run rest
                                  (res', n_successful, n_failed + 1, n_skipped) st'')))))"

text \<open>
  The summary line. The success rate is a floating-point quotient printed with
  \<^verbatim>\<open>.1f\<close>; floating point is not modelled, and the printed rate is the parameter
  \<open>rate_1f successful n_total\<close>.
\<close>

definition summary_line :: "(nat \<Rightarrow> nat \<Rightarrow> string) \<Rightarrow> nat \<Rightarrow> nat \<Rightarrow> string" where
  "summary_line rate_1f n_successful n_total =
     str_nat n_successful @ ''/'' @ str_nat n_total @ '' devices deployed successfully ('' @
     rate_1f n_successful n_total @ ''%)''"

text \<open>
  \<^verbatim>\<open>deploy_all_devices\<close>. Inl is an exception leaving the method: the lookups in the
  inventory, the sort and the assignment to \<^verbatim>\<open>results\<close> are outside any \<^verbatim>\<open>try\<close>, and
  what leaves \<^verbatim>\<open>deploy_device\<close> is not caught.
\<close>

definition deploy_all_devices ::
  "device_manager \<Rightarrow> (nat \<Rightarrow> nat \<Rightarrow> string) \<Rightarrow> DeploymentOrchestrator \<Rightarrow> pyval \<Rightarrow>
   raised + (DeploymentResult \<times> DeploymentOrchestrator)" where
  "deploy_all_devices dm rate_1f st dry_run0 =
     (if devices st = [] then
        Inr (\<lparr>total_devices = 0, successful = 0, failed = 0, skipped = 0, results = [],
              summary = ''No devices to deploy''\<rparr>, st)
      else
        (case resolve_dry_run st dry_run0 of
           Inl e \<Rightarrow> Inl (Exc e)
         | Inr dry_run \<Rightarrow>
             (case validate_templates st of
                (False, st1) \<Rightarrow>
                  Inr (\<lparr>total_devices = length (devices st1), successful = 0,
                        failed = length (devices st1), skipped = 0, results = [],
                        summary = ''Template validation failed - deployment aborted''\<rparr>, st1)
              | (True, st1) \<Rightarrow>
                  (case get_deployment_sequence st1 of
                     Inl e \<Rightarrow> Inl (Exc e)
                   | Inr deployment_sequence \<Rightarrow>
                       (case deploy_loop dm dry_run deployment_sequence ([], 0, 0, 0) st1 of
                          Inl r \<Rightarrow> Inl r
                        | Inr ((res, n_successful, n_failed, n_skipped), st2) \<Rightarrow>
                            (let deployment_result =
                                   \<lparr>total_devices = length (devices st2),
                                    successful = n_successful, failed = n_failed,
                                    skipped = n_skipped, results = res,
                                    summary = summary_line rate_1f n_successful
                                                (length (devices st2))\<rparr>
                             in Inr (deployment_result,
                                     st2\<lparr>deployment_history :=
                                            deployment_history st2 @ [deployment_result],
                                          current_deployment := Some deployment_result\<rparr>)))))))"

section \<open>Notions used in the statements\<close>





text \<open>The results hold, under this name, a result with status Skipped and the fixed message.\<close>

definition skipped_entry :: "(pyval \<times> DeviceResult) list \<Rightarrow> pyval \<Rightarrow> bool" where
  "skipped_entry res name =
     (case results_get res name of
        None \<Rightarrow> False
      | Some r \<Rightarrow> status r = SKIPPED \<and> message r = ''Skipped due to previous deployment failures'')"

text \<open>A value that can be a dictionary key: every value but a list or a dictionary.\<close>

fun hashable :: "pyval \<Rightarrow> bool" where
  "hashable (PList _) = False"
| "hashable (PDict _) = False"
| "hashable _ = True"



text \<open>A template that does not draw on the random generator.\<close>

definition deterministic :: "template \<Rightarrow> bool" where
  "deterministic t = (\<forall>variables rs rs'. fst (t variables rs) = fst (t variables rs'))"

definition deterministic_at :: "TemplateEngine \<Rightarrow> string \<Rightarrow> bool" where
  "deterministic_at eng name = (case loader eng name of Inl e \<Rightarrow> True | Inr t \<Rightarrow> deterministic t)"

text \<open>
  The environment's cache holds only what the loader gives: true of a new engine, whose
  cache is empty, and kept by every operation as long as the files do not change.
\<close>

definition cache_coherent :: "TemplateEngine \<Rightarrow> bool" where
  "cache_coherent eng = (\<forall>name t. map_of (env_cache eng) name = Some t \<longrightarrow> loader eng name = Inr t)"

text \<open>Two engines see the same files.\<close>

definition same_files :: "TemplateEngine \<Rightarrow> TemplateEngine \<Rightarrow> bool" where
  "same_files eng eng' =
     (dir_entries eng' = dir_entries eng \<and> path_exists eng' = path_exists eng
      \<and> loader eng' = loader eng)"

text \<open>
  The validation result of one template as the files alone determine it, with the random
  generator in its state 0.
\<close>

definition probe :: "TemplateEngine \<Rightarrow> string \<Rightarrow> pydict" where
  "probe eng template_name =
     (if \<not> path_exists eng template_name then
        [(''valid'', PBool False),
         (''error'', PStr (''Template file not found: '' @ template_name))]
      else
        (case loader eng template_name of
           Inl e \<Rightarrow> validation_failure e
         | Inr t \<Rightarrow>
             (case fst (t (minimal_vars template_name) 0) of
                Inl e \<Rightarrow> validation_failure e
              | Inr rendered \<Rightarrow>
                  [(''valid'', PBool True),
                   (''length'', PInt (int (length rendered))),
                   (''lines'', PInt (int (length (split_nl rendered))))])))"

definition probe_valid :: "TemplateEngine \<Rightarrow> string \<Rightarrow> bool" where
  "probe_valid eng template_name =
     truthy (dict_get_default (probe eng template_name) ''valid'' (PBool False))"



text \<open>What a run of \<^verbatim>\<open>deploy_all_devices\<close> or \<^verbatim>\<open>deploy_device\<close> shows, None when it raises.\<close>

definition run_counts ::
  "raised + (DeploymentResult \<times> DeploymentOrchestrator) \<Rightarrow> (nat \<times> nat \<times> nat \<times> nat) option" where
  "run_counts r =
     (case r of
        Inl e \<Rightarrow> None
      | Inr (d, st) \<Rightarrow> Some (total_devices d, successful d, failed d, skipped d))"

definition run_statuses ::
  "raised + (DeploymentResult \<times> DeploymentOrchestrator) \<Rightarrow>
   (pyval \<times> DeploymentStatus) list option" where
  "run_statuses r =
     (case r of
        Inl e \<Rightarrow> None
      | Inr (d, st) \<Rightarrow> Some (map (\<lambda>(name, result). (name, status result)) (results d)))"

definition run_objects ::
  "raised + (DeploymentResult \<times> DeploymentOrchestrator) \<Rightarrow> pydict list option" where
  "run_objects r = (case r of Inl e \<Rightarrow> None | Inr (d, st) \<Rightarrow> Some (deref st (devices st)))"

definition run_trace ::
  "raised + (DeploymentResult \<times> DeploymentOrchestrator) \<Rightarrow> dm_call list option" where
  "run_trace r = (case r of Inl e \<Rightarrow> None | Inr (d, st) \<Rightarrow> Some (dm_trace st))"

definition device_outcome ::
  "base_exception + (DeviceResult \<times> pydict \<times> DeploymentOrchestrator) \<Rightarrow>
   (DeploymentStatus \<times> string \<times> string option \<times> dm_call list) option" where
  "device_outcome r =
     (case r of
        Inl e \<Rightarrow> None
      | Inr (result, device_config, st) \<Rightarrow>
          Some (status result, message result, error result, dm_trace st))"

text \<open>The counters \<open>(successful, failed, skipped)\<close> a run of the loop ends with.\<close>

definition loop_counts ::
  "raised + (counters \<times> DeploymentOrchestrator) \<Rightarrow> (nat \<times> nat \<times> nat) option" where
  "loop_counts r =
     (case r of
        Inl e \<Rightarrow> None
      | Inr ((res, n_successful, n_failed, n_skipped), st) \<Rightarrow>
          Some (n_successful, n_failed, n_skipped))"

text \<open>The device a call of the device manager is made for.\<close>

fun call_device :: "dm_call \<Rightarrow> pyval" where
  "call_device (Connect name ip params) = name"
| "call_device (DeployConfig name config dry_run) = name"
| "call_device (Disconnect name) = name"


section \<open>Example inventories\<close>

text \<open>
  A template that renders two lines whatever the variables, a template that repeats a
  letter a random number of times (\<^verbatim>\<open>{{ 'x' * (range(1, 8)|random) }}\<close>), and a file that
  does not compile.
\<close>

definition two_line_template :: template where
  "two_line_template variables rs = (Inr (''sysname core'' @ [CHR 0x0A] @ ''vlan batch 10 20''), rs)"


definition broken_file :: "exn + template" where
  "broken_file = Inl (Exn TemplateSyntaxError ''unexpected end of template'' (Some 3))"

text \<open>A new engine over a directory of files, every one of them a regular file.\<close>

definition engine_with :: "(string \<times> (exn + template)) list \<Rightarrow> TemplateEngine" where
  "engine_with files =
     \<lparr>dir_entries = map fst files,
      path_exists = (\<lambda>name. map_of files name \<noteq> None),
      loader = (\<lambda>name. case map_of files name of
                          None \<Rightarrow> Inl (Exn TemplateNotFound name None)
                        | Some r \<Rightarrow> r),
      env_cache = [], template_cache = [], random_state = 0\<rparr>"

definition engine_ok :: TemplateEngine where
  "engine_ok = engine_with [(''core_switch.j2'', Inr two_line_template), (''README.md'', broken_file)]"

text \<open>The same directory with one more file, \<^verbatim>\<open>unused.j2\<close>, which does not compile.\<close>

definition engine_unused_broken :: TemplateEngine where
  "engine_unused_broken =
     engine_with [(''core_switch.j2'', Inr two_line_template), (''README.md'', broken_file),
                  (''unused.j2'', broken_file)]"


definition core_device :: "string \<Rightarrow> pydict" where
  "core_device name =
     [(''ip'', PStr ''10.0.0.1''), (''device_type'', PStr ''huawei''), (''role'', PStr ''core''),
      (''template'', PStr ''core_switch''), (''name'', PStr name)]"

definition no_ip_device :: "string \<Rightarrow> pydict" where
  "no_ip_device name =
     [(''device_type'', PStr ''huawei''), (''role'', PStr ''core''),
      (''template'', PStr ''core_switch''), (''name'', PStr name)]"


text \<open>An orchestrator whose devices are the given dictionaries, each an object of its own.\<close>

definition orchestrator_with :: "TemplateEngine \<Rightarrow> pydict list \<Rightarrow> DeploymentOrchestrator" where
  "orchestrator_with eng devs =
     \<lparr>inventory = PDict [], objects = devs, devices = [0..<length devs],
      deployment_history = [], current_deployment = None,
      template_engine = eng, dm_trace = []\<rparr>"

definition three_switches :: DeploymentOrchestrator where
  "three_switches =
     orchestrator_with engine_ok [core_device ''sw1'', core_device ''sw2'', core_device ''sw3'']"

text \<open>
  A device manager whose every call succeeds, one that cannot connect to \<^verbatim>\<open>sw2\<close>, one
  whose \<^verbatim>\<open>connect\<close> raises \<^verbatim>\<open>ConnectionError('timed out')\<close>, one whose \<^verbatim>\<open>connect\<close> ends
  the program with \<^verbatim>\<open>sys.exit()\<close>, and a stand-in for the printed rate.
\<close>

definition dm_always :: device_manager where
  "dm_always trace call = Inr True"

definition dm_refuse_sw2 :: device_manager where
  "dm_refuse_sw2 trace call =
     (case call of
        Connect name ip params \<Rightarrow> Inr (name \<noteq> PStr ''sw2'')
      | _ \<Rightarrow> Inr True)"



definition rate_blank :: "nat \<Rightarrow> nat \<Rightarrow> string" where
  "rate_blank n_successful n_total = []"






section \<open>Runs of the examples\<close>

lemma eval_three_switches:
  "run_statuses (deploy_all_devices dm_refuse_sw2 rate_blank three_switches (PBool False)) =
     Some [(PStr ''sw1'', SUCCESS), (PStr ''sw2'', FAILED), (PStr ''sw3'', SKIPPED)]
   \<and> run_counts (deploy_all_devices dm_refuse_sw2 rate_blank three_switches (PBool False)) =
     Some (3, 1, 1, 1)
   \<and> map_option (map call_device) (run_trace (deploy_all_devices dm_refuse_sw2 rate_blank
        three_switches (PBool False))) =
     Some [PStr ''sw1'', PStr ''sw1'', PStr ''sw1'', PStr ''sw2'']"
  by code_simp

section \<open>Template validation\<close>

lemma same_files_refl: "same_files eng eng"
  by (simp add: same_files_def)

lemma same_files_trans: "same_files a b \<Longrightarrow> same_files b c \<Longrightarrow> same_files a c"
  by (simp add: same_files_def)

lemma env_get_template_result:
  "cache_coherent eng \<Longrightarrow> fst (env_get_template eng n) = loader eng n"
  by (auto simp add: env_get_template_def cache_coherent_def split: option.split sum.split)

lemma env_get_template_files: "same_files eng (snd (env_get_template eng n))"
  by (simp add: env_get_template_def same_files_def split: option.split sum.split)

lemma env_get_template_coherent:
  "cache_coherent eng \<Longrightarrow> cache_coherent (snd (env_get_template eng n))"
  by (auto simp add: env_get_template_def cache_coherent_def update_conv'
      split: option.split sum.split)

lemma env_get_template_random:
  "random_state (snd (env_get_template eng n)) = random_state eng"
  by (simp add: env_get_template_def split: option.split sum.split)

lemma render_files: "same_files eng (snd (render eng t vars))"
  by (simp add: render_def same_files_def split: prod.split)

lemma render_coherent: "cache_coherent eng \<Longrightarrow> cache_coherent (snd (render eng t vars))"
  by (simp add: render_def cache_coherent_def split: prod.split)

lemma render_deterministic:
  "deterministic t \<Longrightarrow> fst (render eng t vars) = fst (t vars 0)"
  by (auto simp add: render_def deterministic_def split: prod.split)
    (metis fst_conv)

lemma validate_template_syntax_files:
  "same_files eng (snd (validate_template_syntax eng n))"
proof -
  obtain r e1 where g: "env_get_template eng n = (r, e1)" by (cases "env_get_template eng n")
  with env_get_template_files [of eng n] have f1: "same_files eng e1" by simp
  show ?thesis
  proof (cases r)
    case (Inl e)
    with g f1 show ?thesis by (simp add: validate_template_syntax_def same_files_refl)
  next
    case (Inr t)
    obtain x e2 where rr: "render e1 t (minimal_vars n) = (x, e2)"
      by (cases "render e1 t (minimal_vars n)")
    with render_files [of e1 t "minimal_vars n"] have "same_files e1 e2" by simp
    with f1 have "same_files eng e2" by (rule same_files_trans)
    with g Inr rr f1 show ?thesis
      by (cases x) (simp_all add: validate_template_syntax_def same_files_refl)
  qed
qed

lemma validate_template_syntax_coherent:
  assumes "cache_coherent eng"
  shows "cache_coherent (snd (validate_template_syntax eng n))"
proof -
  obtain r e1 where g: "env_get_template eng n = (r, e1)" by (cases "env_get_template eng n")
  with env_get_template_coherent [OF assms, of n] have c1: "cache_coherent e1" by simp
  show ?thesis
  proof (cases r)
    case (Inl e)
    with g c1 assms show ?thesis by (simp add: validate_template_syntax_def)
  next
    case (Inr t)
    obtain x e2 where rr: "render e1 t (minimal_vars n) = (x, e2)"
      by (cases "render e1 t (minimal_vars n)")
    with render_coherent [OF c1, of t "minimal_vars n"] have "cache_coherent e2" by simp
    with g Inr rr assms show ?thesis
      by (cases x) (simp_all add: validate_template_syntax_def)
  qed
qed

lemma validate_template_syntax_probe:
  assumes c: "cache_coherent eng" and d: "deterministic_at eng n"
  shows "fst (validate_template_syntax eng n) = probe eng n"
proof (cases "path_exists eng n")
  case False
  then show ?thesis by (simp add: validate_template_syntax_def probe_def template_exists_def)
next
  case True
  obtain r e1 where g: "env_get_template eng n = (r, e1)" by (cases "env_get_template eng n")
  with env_get_template_result [OF c, of n] have r: "r = loader eng n" by simp
  show ?thesis
  proof (cases r)
    case (Inl e)
    with r have l: "loader eng n = Inl e" by simp
    from g Inl have g': "env_get_template eng n = (Inl e, e1)" by simp
    from True g' l show ?thesis
      by (simp add: validate_template_syntax_def probe_def template_exists_def)
  next
    case (Inr t)
    with r have l: "loader eng n = Inr t" by simp
    from g Inr have g': "env_get_template eng n = (Inr t, e1)" by simp
    from l d have dt: "deterministic t" by (simp add: deterministic_at_def)
    obtain x e2 where rr: "render e1 t (minimal_vars n) = (x, e2)"
      by (cases "render e1 t (minimal_vars n)")
    with render_deterministic [OF dt, of e1 "minimal_vars n"]
    have x: "x = fst (t (minimal_vars n) 0)" by simp
    from x have x': "fst (t (minimal_vars n) 0) = x" by simp
    from True g' l rr x' show ?thesis
      by (cases x) (simp_all add: validate_template_syntax_def probe_def template_exists_def)
  qed
qed

lemma probe_same_files: "same_files eng eng' \<Longrightarrow> probe eng' n = probe eng n"
  by (simp add: probe_def same_files_def)

lemma deterministic_at_same_files:
  "same_files eng eng' \<Longrightarrow> deterministic_at eng' n = deterministic_at eng n"
  by (simp add: deterministic_at_def same_files_def)




lemma validate_loop_probe:
  assumes "cache_coherent eng" and "\<forall>n\<in>set names. deterministic_at eng n"
  shows "fst (validate_loop names res eng) =
           fold (\<lambda>n r. AList.update n (probe eng n) r) names res"
  using assms
proof (induction names arbitrary: res eng)
  case Nil
  show ?case by simp
next
  case (Cons n names)
  obtain r e where v: "validate_template_syntax eng n = (r, e)"
    by (cases "validate_template_syntax eng n")
  from Cons.prems have dn: "deterministic_at eng n" by simp
  from v validate_template_syntax_probe [OF Cons.prems(1) dn] have r: "r = probe eng n" by simp
  from v validate_template_syntax_files [of eng n] have sf: "same_files eng e" by simp
  from v validate_template_syntax_coherent [OF Cons.prems(1), of n] have ce: "cache_coherent e"
    by simp
  from Cons.prems(2) sf have de: "\<forall>m\<in>set names. deterministic_at e m"
    by (simp add: deterministic_at_same_files)
  from sf have pe: "(\<lambda>m r. AList.update m (probe e m) r) = (\<lambda>m r. AList.update m (probe eng m) r)"
    by (simp add: probe_same_files)
  from Cons.IH [OF ce de, of "AList.update n r res"] v r pe show ?case by simp
qed

lemma validate_loop_keys:
  "fst ` set (fst (validate_loop names res eng)) = set names \<union> fst ` set res"
proof (induction names arbitrary: res eng)
  case Nil
  show ?case by simp
next
  case (Cons n names)
  obtain r e where v: "validate_template_syntax eng n = (r, e)"
    by (cases "validate_template_syntax eng n")
  from Cons.IH [of "AList.update n r res" e] v show ?case
    by (simp add: dom_update)
qed

lemma fold_update_map:
  "distinct (map fst res) \<Longrightarrow>
   distinct (map fst (fold (\<lambda>n r. AList.update n (f n) r) names res))
   \<and> map_of (fold (\<lambda>n r. AList.update n (f n) r) names res) =
       (\<lambda>k. if k \<in> set names then Some (f k) else map_of res k)"
proof (induction names arbitrary: res)
  case Nil
  then show ?case by simp
next
  case (Cons n names)
  from Cons.prems have d: "distinct (map fst (AList.update n (f n) res))" by (rule distinct_update)
  from Cons.IH [OF d] show ?case
    by (auto simp add: update_conv' fun_eq_iff)
qed

lemma list_all_distinct_map_of:
  "distinct (map fst al) \<Longrightarrow>
   list_all (\<lambda>(k, v). Q v) al = (\<forall>k v. map_of al k = Some v \<longrightarrow> Q v)"
  by (auto simp add: list_all_iff dest: map_of_SomeD)

lemma all_valid_fold_probe:
  "all_valid (fold (\<lambda>n r. AList.update n (probe eng n) r) names []) =
     (\<forall>name\<in>set names. probe_valid eng name)"
proof -
  have d: "distinct (map fst ([] :: (string \<times> pydict) list))" by simp
  from fold_update_map [OF d, of "probe eng" names]
  have dd: "distinct (map fst (fold (\<lambda>n r. AList.update n (probe eng n) r) names []))"
    and m: "map_of (fold (\<lambda>n r. AList.update n (probe eng n) r) names []) =
       (\<lambda>k. if k \<in> set names then Some (probe eng k) else None)"
    by (simp_all cong: if_cong)
  show ?thesis
    unfolding all_valid_def list_all_distinct_map_of [OF dd] m probe_valid_def
    by auto
qed

lemma validate_templates_frame:
  "snd (validate_templates st) =
     (if used_templates st = [] then st
      else st\<lparr>template_engine := snd (validate_all_templates (template_engine st))\<rparr>)"
  by (simp add: validate_templates_def split: prod.split)

lemma validate_templates_fields:
  "dm_trace (snd (validate_templates st)) = dm_trace st
   \<and> objects (snd (validate_templates st)) = objects st
   \<and> devices (snd (validate_templates st)) = devices st
   \<and> inventory (snd (validate_templates st)) = inventory st
   \<and> deployment_history (snd (validate_templates st)) = deployment_history st
   \<and> current_deployment (snd (validate_templates st)) = current_deployment st"
  by (simp add: validate_templates_frame)







text \<open>
  C1, as amended. The gate passes exactly when no device names a template or every entry
  of the validation results is valid; the results have one entry for every template file
  of the directory, whatever the devices reference. When rendering is deterministic, that
  is: the gate passes exactly when no device names a template or every template file of
  the directory validates.
\<close>

theorem gate_checks_every_template_file:
  "fst (validate_templates st) =
     (used_templates st = [] \<or> all_valid (fst (validate_all_templates (template_engine st))))
   \<and> fst ` set (fst (validate_all_templates (template_engine st))) =
       set (list_templates (template_engine st))
   \<and> (cache_coherent (template_engine st)
        \<and> (\<forall>name\<in>set (list_templates (template_engine st)).
              deterministic_at (template_engine st) name)
      \<longrightarrow> fst (validate_templates st) =
            (used_templates st = []
             \<or> (\<forall>name\<in>set (list_templates (template_engine st)).
                   probe_valid (template_engine st) name)))"
proof -
  let ?eng = "template_engine st"
  have a: "fst (validate_templates st) =
     (used_templates st = [] \<or> all_valid (fst (validate_all_templates ?eng)))"
    by (simp add: validate_templates_def split: prod.split)
  have b: "fst ` set (fst (validate_all_templates ?eng)) = set (list_templates ?eng)"
    unfolding validate_all_templates_def using validate_loop_keys [of "list_templates ?eng" "[]" ?eng]
    by simp
  have c: "fst (validate_templates st) =
            (used_templates st = [] \<or> (\<forall>name\<in>set (list_templates ?eng). probe_valid ?eng name))"
    if h: "cache_coherent ?eng \<and> (\<forall>name\<in>set (list_templates ?eng). deterministic_at ?eng name)"
  proof -
    from h have "fst (validate_all_templates ?eng) =
        fold (\<lambda>n r. AList.update n (probe ?eng n) r) (list_templates ?eng) []"
      unfolding validate_all_templates_def by (simp add: validate_loop_probe)
    with a show ?thesis by (simp add: all_valid_fold_probe)
  qed
  from a b c show ?thesis by blast
qed

lemma eval_gate:
  "fst (validate_templates (orchestrator_with engine_unused_broken [core_device ''sw1''])) = False"
  by code_simp

lemma engine_unused_broken_listing:
  "list_templates engine_unused_broken = [''core_switch.j2'', ''unused.j2'']"
  by code_simp

lemma engine_unused_broken_coherent: "cache_coherent engine_unused_broken"
  by (simp add: cache_coherent_def engine_unused_broken_def engine_with_def)

lemma engine_unused_broken_deterministic:
  "deterministic_at engine_unused_broken ''core_switch.j2''
   \<and> deterministic_at engine_unused_broken ''unused.j2''"
  by (simp add: deterministic_at_def engine_unused_broken_def engine_with_def deterministic_def
      two_line_template_def broken_file_def)

lemma engine_unused_broken_probe:
  "probe_valid engine_unused_broken ''core_switch.j2''
   \<and> \<not> probe_valid engine_unused_broken ''unused.j2''"
  by code_simp

lemma eval_used_templates:
  "used_templates (orchestrator_with engine_unused_broken [core_device ''sw1''])
     = [PStr ''core_switch'']"
  by code_simp

theorem gate_checks_every_template_file_witness:
  "cache_coherent engine_unused_broken
   \<and> list_templates engine_unused_broken = [''core_switch.j2'', ''unused.j2'']
   \<and> deterministic_at engine_unused_broken ''core_switch.j2''
   \<and> deterministic_at engine_unused_broken ''unused.j2''
   \<and> used_templates (orchestrator_with engine_unused_broken [core_device ''sw1''])
       = [PStr ''core_switch'']
   \<and> probe_valid engine_unused_broken ''core_switch.j2''
   \<and> \<not> probe_valid engine_unused_broken ''unused.j2''
   \<and> fst (validate_templates (orchestrator_with engine_unused_broken [core_device ''sw1'']))
       = False"
proof -
  let ?st = "orchestrator_with engine_unused_broken [core_device ''sw1'']"
  have e: "template_engine ?st = engine_unused_broken" by (simp add: orchestrator_with_def)
  have h: "cache_coherent (template_engine ?st)
           \<and> (\<forall>name\<in>set (list_templates (template_engine ?st)).
                 deterministic_at (template_engine ?st) name)"
    by (simp add: e engine_unused_broken_coherent engine_unused_broken_listing
        engine_unused_broken_deterministic)
  from gate_checks_every_template_file [of ?st] h
  have "fst (validate_templates ?st) =
          (used_templates ?st = []
           \<or> (\<forall>name\<in>set (list_templates (template_engine ?st)).
                 probe_valid (template_engine ?st) name))"
    by blast
  then have "fst (validate_templates ?st) = False"
    by (simp add: e eval_used_templates engine_unused_broken_listing engine_unused_broken_probe)
  with engine_unused_broken_coherent engine_unused_broken_listing
    engine_unused_broken_deterministic eval_used_templates engine_unused_broken_probe
  show ?thesis by blast
qed

text \<open>
  C1, as stated, fails: the one device references \<^verbatim>\<open>core_switch\<close>, whose template is valid;
  \<^verbatim>\<open>unused.j2\<close>, which no device references, does not compile, and the gate fails. Without
  that file the gate passes.
\<close>

theorem unreferenced_template_fails_gate:
  "used_templates (orchestrator_with engine_unused_broken [core_device ''sw1''])
     = [PStr ''core_switch'']
   \<and> fst (validate_templates (orchestrator_with engine_unused_broken [core_device ''sw1''])) = False
   \<and> fst (validate_templates (orchestrator_with engine_ok [core_device ''sw1''])) = True"
  by code_simp

section \<open>The run as a whole\<close>

text \<open>
  C2. When the inventory has a device, the dry-run mode is resolved and the validation
  gate fails, \<^verbatim>\<open>deploy_all_devices\<close> returns failed = total, successful = 0, skipped = 0,
  no per-device result and the summary of an aborted run. The state is the state before,
  but for the template engine, which is as the validation left it: the devices, the
  history and the record of device manager calls are as before, so no call was made.
\<close>

theorem gate_failure_aborts:
  assumes "devices st \<noteq> []"
    and "resolve_dry_run st dry_run0 = Inr dry_run"
    and "fst (validate_templates st) = False"
  shows "deploy_all_devices dm rate_1f st dry_run0 =
           Inr (\<lparr>total_devices = length (devices st), successful = 0,
                 failed = length (devices st), skipped = 0, results = [],
                 summary = ''Template validation failed - deployment aborted''\<rparr>,
                st\<lparr>template_engine := snd (validate_all_templates (template_engine st))\<rparr>)"
proof -
  obtain ok st1 where v: "validate_templates st = (ok, st1)" by (cases "validate_templates st")
  with assms(3) have ok: "ok = False" by simp
  from assms(3) have u: "used_templates st \<noteq> []" by (auto simp add: validate_templates_def)
  from v validate_templates_frame [of st] u
  have st1: "st1 = st\<lparr>template_engine := snd (validate_all_templates (template_engine st))\<rparr>"
    by simp
  from v ok st1 assms(1,2) show ?thesis by (simp add: deploy_all_devices_def)
qed

theorem gate_failure_aborts_witness:
  "devices (orchestrator_with engine_unused_broken [core_device ''sw1'']) \<noteq> []
   \<and> resolve_dry_run (orchestrator_with engine_unused_broken [core_device ''sw1'']) (PBool False)
       = Inr (PBool False)
   \<and> fst (validate_templates (orchestrator_with engine_unused_broken [core_device ''sw1''])) = False
   \<and> run_counts (deploy_all_devices dm_always rate_blank
        (orchestrator_with engine_unused_broken [core_device ''sw1'']) (PBool False))
       = Some (1, 0, 1, 0)
   \<and> run_trace (deploy_all_devices dm_always rate_blank
        (orchestrator_with engine_unused_broken [core_device ''sw1'']) (PBool False))
       = Some []"
proof -
  have d: "devices (orchestrator_with engine_unused_broken [core_device ''sw1'']) \<noteq> []"
    by (simp add: orchestrator_with_def)
  have r: "resolve_dry_run (orchestrator_with engine_unused_broken [core_device ''sw1''])
             (PBool False) = Inr (PBool False)"
    by (simp add: resolve_dry_run_def)
  have n: "length (devices (orchestrator_with engine_unused_broken [core_device ''sw1''])) = 1"
    and t: "dm_trace (orchestrator_with engine_unused_broken [core_device ''sw1'']) = []"
    by (simp_all add: orchestrator_with_def)
  from gate_failure_aborts [OF d r eval_gate, of dm_always rate_blank] n t
  have "run_counts (deploy_all_devices dm_always rate_blank
        (orchestrator_with engine_unused_broken [core_device ''sw1'']) (PBool False))
       = Some (1, 0, 1, 0)
     \<and> run_trace (deploy_all_devices dm_always rate_blank
        (orchestrator_with engine_unused_broken [core_device ''sw1'']) (PBool False))
       = Some []"
    by (simp add: run_counts_def run_trace_def)
  with d r eval_gate show ?thesis by blast
qed

section \<open>Deploying one device\<close>

lemma deploy_generated_frame:
  "inventory (snd (snd (deploy_generated dm st cfg name role dry))) = inventory st
   \<and> objects (snd (snd (deploy_generated dm st cfg name role dry))) = objects st
   \<and> devices (snd (snd (deploy_generated dm st cfg name role dry))) = devices st
   \<and> deployment_history (snd (snd (deploy_generated dm st cfg name role dry))) = deployment_history st
   \<and> current_deployment (snd (snd (deploy_generated dm st cfg name role dry))) = current_deployment st"
  by (simp add: deploy_generated_def Let_def dm_invoke_def split: sum.split prod.split)

lemma deploy_device_try_frame:
  "inventory (snd (snd (deploy_device_try dm st cfg name dry))) = inventory st
   \<and> objects (snd (snd (deploy_device_try dm st cfg name dry))) = objects st
   \<and> devices (snd (snd (deploy_device_try dm st cfg name dry))) = devices st
   \<and> deployment_history (snd (snd (deploy_device_try dm st cfg name dry))) = deployment_history st
   \<and> current_deployment (snd (snd (deploy_device_try dm st cfg name dry))) = current_deployment st"
  by (simp add: deploy_device_try_def Let_def dm_invoke_def deploy_generated_frame
      split: sum.split prod.split)

lemma deploy_device_frame:
  assumes "deploy_device dm st cfg dry = Inr (r, cfg', st')"
  shows "inventory st' = inventory st \<and> objects st' = objects st \<and> devices st' = devices st
   \<and> deployment_history st' = deployment_history st
   \<and> current_deployment st' = current_deployment st"
proof -
  let ?name = "dict_get_default cfg ''name'' (PStr ''unknown'')"
  obtain x c s where t: "deploy_device_try dm st cfg ?name dry = (x, c, s)"
    by (cases "deploy_device_try dm st cfg ?name dry")
  with assms have "st' = s" by (cases x) (auto simp add: deploy_device_def split: raised.splits)
  with t deploy_device_try_frame [of dm st cfg ?name dry]
  show ?thesis by simp
qed
























section \<open>The loop over the deployment sequence\<close>

lemma results_set_hashable:
  "hashable name \<Longrightarrow> results_set res name r = Inr (AList.update (result_key name) r res)"
  by (cases name) (simp_all add: results_set_def)

lemma loop_skip:
  assumes "rollback_on_failure st = Inr rollback" and "truthy rollback" and "0 < n_failed"
  shows "deploy_loop dm dry (a # rest) (res, ns, n_failed, nk) st =
           (case results_set res (name_of (objects st ! a))
                   (skipped_result (name_of (objects st ! a))) of
              Inl e \<Rightarrow> Inl (Exc e)
            | Inr res' \<Rightarrow> deploy_loop dm dry rest (res', ns, n_failed, nk + 1) st)"
  using assms by (simp add: Let_def)

lemma loop_attempt:
  assumes "rollback_on_failure st = Inr rollback" and "\<not> (truthy rollback \<and> 0 < n_failed)"
  shows "deploy_loop dm dry (a # rest) (res, ns, n_failed, nk) st =
           (case deploy_device dm st (objects st ! a) dry of
              Inl b \<Rightarrow> Inl (BaseExc b)
            | Inr (result, device_config', st') \<Rightarrow>
                (case results_set res (name_of (objects st ! a)) result of
                   Inl e \<Rightarrow> Inl (Exc e)
                 | Inr res' \<Rightarrow>
                     deploy_loop dm dry rest
                       (res', ns + (if status result = SUCCESS then 1 else 0),
                        n_failed + (if status result = SUCCESS then 0 else 1), nk)
                       (st'\<lparr>objects := (objects st')[a := device_config']\<rparr>)))"
  using assms by (auto simp add: Let_def split: sum.split prod.split)

lemma skipped_entry_update:
  "skipped_entry (AList.update (result_key name) (skipped_result name') res) name
   \<and> (\<forall>n. skipped_entry res n \<longrightarrow>
          skipped_entry (AList.update (result_key name) (skipped_result name') res) n)"
  by (simp add: skipped_entry_def results_get_def update_conv' skipped_result_def)

lemma skip_tail:
  assumes rb: "rollback_on_failure st = Inr rollback" "truthy rollback" and f: "0 < n_failed"
  shows "\<forall>a\<in>set seq. hashable (name_of (objects st ! a)) \<Longrightarrow>
         \<exists>res'. deploy_loop dm dry seq (res, ns, n_failed, nk) st =
                   Inr ((res', ns, n_failed, nk + length seq), st)
                \<and> (\<forall>a\<in>set seq. skipped_entry res' (name_of (objects st ! a)))
                \<and> (\<forall>n. skipped_entry res n \<longrightarrow> skipped_entry res' n)"
proof (induction seq arbitrary: res nk)
  case Nil
  then show ?case by simp
next
  case (Cons a rest)
  let ?n = "name_of (objects st ! a)"
  let ?res1 = "AList.update (result_key ?n) (skipped_result ?n) res"
  from Cons.prems have h: "hashable ?n" and hr: "\<forall>a\<in>set rest. hashable (name_of (objects st ! a))"
    by simp_all
  from loop_skip [OF rb f, of dm dry a rest res ns nk] results_set_hashable [OF h]
  have step: "deploy_loop dm dry (a # rest) (res, ns, n_failed, nk) st =
                deploy_loop dm dry rest (?res1, ns, n_failed, nk + 1) st"
    by simp
  from Cons.IH [OF hr, of ?res1 "nk + 1"] obtain res' where
    l: "deploy_loop dm dry rest (?res1, ns, n_failed, nk + 1) st =
          Inr ((res', ns, n_failed, nk + 1 + length rest), st)"
    and s: "\<forall>a\<in>set rest. skipped_entry res' (name_of (objects st ! a))"
    and k: "\<forall>n. skipped_entry ?res1 n \<longrightarrow> skipped_entry res' n"
    by blast
  from skipped_entry_update [of ?n ?n res] k
  have "skipped_entry res' ?n" and "\<forall>n. skipped_entry res n \<longrightarrow> skipped_entry res' n"
    by simp_all
  with step l s show ?case by simp
qed

lemma loop_total:
  "deploy_loop dm dry seq (res, ns, nf, nk) st = Inr ((res', ns', nf', nk'), st') \<Longrightarrow>
   ns' + nf' + nk' = ns + nf + nk + length seq
   \<and> devices st' = devices st \<and> inventory st' = inventory st"
proof (induction seq arbitrary: res ns nf nk st)
  case Nil
  then show ?case by simp
next
  case (Cons a rest)
  from Cons.prems obtain rollback where rb: "rollback_on_failure st = Inr rollback"
    by (cases "rollback_on_failure st") (simp_all add: Let_def)
  show ?case
  proof (cases "truthy rollback \<and> 0 < nf")
    case True
    with Cons.prems loop_skip [OF rb, of nf dm dry a rest res ns nk]
    obtain res1 where
      l: "deploy_loop dm dry rest (res1, ns, nf, nk + 1) st = Inr ((res', ns', nf', nk'), st')"
      by (auto split: sum.splits)
    from Cons.IH [OF l] show ?thesis by simp
  next
    case False
    with Cons.prems loop_attempt [OF rb False, of dm dry a rest res ns nk]
    obtain result c s res1 where d: "deploy_device dm st (objects st ! a) dry = Inr (result, c, s)"
      and l: "deploy_loop dm dry rest
                (res1, ns + (if status result = SUCCESS then 1 else 0),
                 nf + (if status result = SUCCESS then 0 else 1), nk)
                (s\<lparr>objects := (objects s)[a := c]\<rparr>) = Inr ((res', ns', nf', nk'), st')"
      by (auto split: sum.splits prod.splits)
    from deploy_device_frame [OF d] have fr: "devices s = devices st" "inventory s = inventory st"
      by simp_all
    from Cons.IH [OF l] fr show ?thesis by simp
  qed
qed

lemma py_insort_length: "length (py_insort key x ys) = Suc (length ys)"
  by (induction ys) simp_all

lemma py_sort_length: "length (py_sort key xs) = length xs"
  by (induction xs) (simp_all add: py_sort_def py_insort_length)

lemma py_sorted_length: "py_sorted key xs = Inr ys \<Longrightarrow> length ys = length xs"
  by (auto simp add: py_sorted_def py_sort_length split: if_splits)

lemma sequence_length: "get_deployment_sequence st = Inr seq \<Longrightarrow> length seq = length (devices st)"
  by (auto simp add: get_deployment_sequence_def dest: py_sorted_length)

lemma loop_step:
  "deploy_loop dm dry (a # rest) (res, ns, nf, nk) st =
     (case deploy_loop dm dry [a] (res, ns, nf, nk) st of
        Inl e \<Rightarrow> Inl e
      | Inr (acc1, st1) \<Rightarrow> deploy_loop dm dry rest acc1 st1)"
  by (simp add: Let_def split: sum.split prod.split)

lemma loop_single:
  assumes "deploy_loop dm dry [a] (res, ns, nf, nk) st = Inr ((res', ns', nf', nk'), st')"
  shows "(ns' = ns + 1 \<and> nf' = nf \<and> nk' = nk) \<or> (ns' = ns \<and> nf' = nf + 1 \<and> nk' = nk)
         \<or> (ns' = ns \<and> nf' = nf \<and> nk' = nk + 1)"
proof -
  from assms obtain rollback where rb: "rollback_on_failure st = Inr rollback"
    by (cases "rollback_on_failure st") (simp_all add: Let_def)
  show ?thesis
  proof (cases "truthy rollback \<and> 0 < nf")
    case True
    with assms loop_skip [OF rb, of nf dm dry a "[]" res ns nk]
    show ?thesis by (auto split: sum.splits)
  next
    case False
    with assms loop_attempt [OF rb False, of dm dry a "[]" res ns nk]
    show ?thesis by (auto split: sum.splits prod.splits if_splits)
  qed
qed

text \<open>
  C3. With \<^verbatim>\<open>rollback_on_failure\<close> on: once a device of the run has failed, every
  device still in the sequence (its name a dictionary key, as every name of a loaded
  inventory is) is recorded as Skipped with the fixed message, the skipped counter
  goes up by one for each, the other counters stay, and the state is unchanged, so
  \<^verbatim>\<open>deploy_device\<close> was not called and no call of the device manager made. As long as
  no device has failed, the next device is deployed with \<^verbatim>\<open>deploy_device\<close>.
\<close>

theorem rollback_skips_after_failure:
  assumes "rollback_on_failure st = Inr rollback" and "truthy rollback"
  shows "(0 < n_failed \<and> (\<forall>a\<in>set seq. hashable (name_of (objects st ! a))) \<longrightarrow>
            (\<exists>res'. deploy_loop dm dry_run seq (res, n_successful, n_failed, n_skipped) st =
                       Inr ((res', n_successful, n_failed, n_skipped + length seq), st)
                    \<and> (\<forall>a\<in>set seq. skipped_entry res' (name_of (objects st ! a)))))
         \<and> deploy_loop dm dry_run (a # rest) (res, n_successful, 0, n_skipped) st =
             (case deploy_device dm st (objects st ! a) dry_run of
                Inl b \<Rightarrow> Inl (BaseExc b)
              | Inr (result, device_config', st1) \<Rightarrow>
                  (case results_set res (name_of (objects st ! a)) result of
                     Inl e \<Rightarrow> Inl (Exc e)
                   | Inr res1 \<Rightarrow>
                       deploy_loop dm dry_run rest
                         (res1, n_successful + (if status result = SUCCESS then 1 else 0),
                          (if status result = SUCCESS then 0 else 1), n_skipped)
                         (st1\<lparr>objects := (objects st1)[a := device_config']\<rparr>)))"
proof (rule conjI, rule impI)
  assume h: "0 < n_failed \<and> (\<forall>a\<in>set seq. hashable (name_of (objects st ! a)))"
  then have f: "0 < n_failed" and k: "\<forall>a\<in>set seq. hashable (name_of (objects st ! a))"
    by simp_all
  from skip_tail [OF assms f k, of dm dry_run res n_successful n_skipped]
  show "\<exists>res'. deploy_loop dm dry_run seq (res, n_successful, n_failed, n_skipped) st =
                  Inr ((res', n_successful, n_failed, n_skipped + length seq), st)
               \<and> (\<forall>a\<in>set seq. skipped_entry res' (name_of (objects st ! a)))"
    by blast
next
  from assms(1)
  show "deploy_loop dm dry_run (a # rest) (res, n_successful, 0, n_skipped) st =
             (case deploy_device dm st (objects st ! a) dry_run of
                Inl b \<Rightarrow> Inl (BaseExc b)
              | Inr (result, device_config', st1) \<Rightarrow>
                  (case results_set res (name_of (objects st ! a)) result of
                     Inl e \<Rightarrow> Inl (Exc e)
                   | Inr res1 \<Rightarrow>
                       deploy_loop dm dry_run rest
                         (res1, n_successful + (if status result = SUCCESS then 1 else 0),
                          (if status result = SUCCESS then 0 else 1), n_skipped)
                         (st1\<lparr>objects := (objects st1)[a := device_config']\<rparr>)))"
    by (auto simp add: Let_def split: sum.split prod.split)
qed

lemma three_switches_rollback: "rollback_on_failure three_switches = Inr (PBool True)"
  by (simp add: rollback_on_failure_def three_switches_def orchestrator_with_def py_get_def
      dict_get_default_def)

lemma three_switches_sw3: "name_of (objects three_switches ! 2) = PStr ''sw3''"
  by (simp add: three_switches_def orchestrator_with_def name_of_def core_device_def
      dict_get_default_def)

theorem rollback_skips_after_failure_witness:
  "rollback_on_failure three_switches = Inr (PBool True)
   \<and> truthy (PBool True)
   \<and> (0::nat) < 1
   \<and> hashable (name_of (objects three_switches ! 2))
   \<and> (\<exists>res'. deploy_loop dm_refuse_sw2 (PBool False) [2] ([], 1, 1, 0) three_switches =
                Inr ((res', 1, 1, 1), three_switches)
             \<and> skipped_entry res' (PStr ''sw3''))
   \<and> run_statuses (deploy_all_devices dm_refuse_sw2 rate_blank three_switches (PBool False)) =
       Some [(PStr ''sw1'', SUCCESS), (PStr ''sw2'', FAILED), (PStr ''sw3'', SKIPPED)]
   \<and> run_counts (deploy_all_devices dm_refuse_sw2 rate_blank three_switches (PBool False)) =
       Some (3, 1, 1, 1)
   \<and> map_option (map call_device) (run_trace (deploy_all_devices dm_refuse_sw2 rate_blank
        three_switches (PBool False))) =
       Some [PStr ''sw1'', PStr ''sw1'', PStr ''sw1'', PStr ''sw2'']"
proof -
  have t: "truthy (PBool True)" by simp
  have h: "hashable (name_of (objects three_switches ! 2))" by (simp add: three_switches_sw3)
  from rollback_skips_after_failure [OF three_switches_rollback t,
      where n_failed = 1 and seq = "[2]" and dm = dm_refuse_sw2 and dry_run = "PBool False"
        and res = "[]" and n_successful = 1 and n_skipped = 0] h
  have "\<exists>res'. deploy_loop dm_refuse_sw2 (PBool False) [2] ([], 1, 1, 0) three_switches =
                Inr ((res', 1, 1, 1), three_switches)
             \<and> skipped_entry res' (PStr ''sw3'')"
    by (simp add: three_switches_sw3)
  with three_switches_rollback t h eval_three_switches show ?thesis by simp
qed

text \<open>
  C10. Whatever \<^verbatim>\<open>deploy_all_devices\<close> returns (for an empty inventory, after a failed
  gate or after the loop), the total is the sum of the three counters and the number of
  devices. The loop handles the first device of a sequence and then the others, and
  handling one device adds one to exactly one of the three counters.
\<close>

theorem counters_partition:
  "(deploy_all_devices dm rate_1f st dry_run0 = Inr (r, st') \<longrightarrow>
      total_devices r = successful r + failed r + skipped r
      \<and> total_devices r = length (devices st))
   \<and> (deploy_loop dm dry_run (a # rest) (res, ns, nf, nk) st = Inr out \<longrightarrow>
        (\<exists>res1 ns1 nf1 nk1 st1.
            deploy_loop dm dry_run [a] (res, ns, nf, nk) st = Inr ((res1, ns1, nf1, nk1), st1)
            \<and> deploy_loop dm dry_run rest (res1, ns1, nf1, nk1) st1 = Inr out
            \<and> ((ns1 = ns + 1 \<and> nf1 = nf \<and> nk1 = nk)
                \<or> (ns1 = ns \<and> nf1 = nf + 1 \<and> nk1 = nk)
                \<or> (ns1 = ns \<and> nf1 = nf \<and> nk1 = nk + 1))))"
proof (rule conjI; rule impI)
  assume run: "deploy_all_devices dm rate_1f st dry_run0 = Inr (r, st')"
  show "total_devices r = successful r + failed r + skipped r
        \<and> total_devices r = length (devices st)"
  proof (cases "devices st = []")
    case True
    with run show ?thesis by (auto simp add: deploy_all_devices_def)
  next
    case False
    with run obtain dry where d: "resolve_dry_run st dry_run0 = Inr dry"
      by (cases "resolve_dry_run st dry_run0") (simp_all add: deploy_all_devices_def)
    obtain ok st1 where v: "validate_templates st = (ok, st1)" by (cases "validate_templates st")
    with validate_templates_fields [of st] have st1: "devices st1 = devices st" by simp
    show ?thesis
    proof (cases ok)
      case False
      with run \<open>devices st \<noteq> []\<close> d v st1 show ?thesis
        by (auto simp add: deploy_all_devices_def)
    next
      case True
      with run \<open>devices st \<noteq> []\<close> d v obtain seq where
        sq: "get_deployment_sequence st1 = Inr seq"
        by (cases "get_deployment_sequence st1") (simp_all add: deploy_all_devices_def)
      with run \<open>devices st \<noteq> []\<close> d v True obtain res1 ns1 nf1 nk1 st2 where
        l: "deploy_loop dm dry seq ([], 0, 0, 0) st1 = Inr ((res1, ns1, nf1, nk1), st2)"
        by (cases "deploy_loop dm dry seq ([], 0, 0, 0) st1") (auto simp add: deploy_all_devices_def)
      from loop_total [OF l] sequence_length [OF sq] st1
      have c: "ns1 + nf1 + nk1 = length (devices st)" "devices st2 = devices st"
        by simp_all
      from run \<open>devices st \<noteq> []\<close> d v True sq l c show ?thesis
        by (auto simp add: deploy_all_devices_def Let_def)
    qed
  qed
next
  assume l: "deploy_loop dm dry_run (a # rest) (res, ns, nf, nk) st = Inr out"
  obtain x where x: "deploy_loop dm dry_run [a] (res, ns, nf, nk) st = x" by simp
  from l loop_step [of dm dry_run a rest res ns nf nk st] x
  obtain res1 ns1 nf1 nk1 st1 where
    one: "deploy_loop dm dry_run [a] (res, ns, nf, nk) st = Inr ((res1, ns1, nf1, nk1), st1)"
    and two: "deploy_loop dm dry_run rest (res1, ns1, nf1, nk1) st1 = Inr out"
    by (cases x) (auto split: prod.splits)
  from loop_single [OF one] one two
  show "\<exists>res1 ns1 nf1 nk1 st1.
            deploy_loop dm dry_run [a] (res, ns, nf, nk) st = Inr ((res1, ns1, nf1, nk1), st1)
            \<and> deploy_loop dm dry_run rest (res1, ns1, nf1, nk1) st1 = Inr out
            \<and> ((ns1 = ns + 1 \<and> nf1 = nf \<and> nk1 = nk)
                \<or> (ns1 = ns \<and> nf1 = nf + 1 \<and> nk1 = nk)
                \<or> (ns1 = ns \<and> nf1 = nf \<and> nk1 = nk + 1))"
    by blast
qed

lemma eval_loop_three_switches:
  "loop_counts (deploy_loop dm_refuse_sw2 (PBool False) [0, 1, 2] ([], 0, 0, 0) three_switches) =
     Some (1, 1, 1)
   \<and> loop_counts (deploy_loop dm_refuse_sw2 (PBool False) [0] ([], 0, 0, 0) three_switches) =
     Some (1, 0, 0)"
  by code_simp

theorem counters_partition_witness:
  "\<exists>r st' out res1 ns1 nf1 nk1 st1.
     deploy_all_devices dm_refuse_sw2 rate_blank three_switches (PBool False) = Inr (r, st')
     \<and> total_devices r = successful r + failed r + skipped r
     \<and> total_devices r = 3 \<and> successful r = 1 \<and> failed r = 1 \<and> skipped r = 1
     \<and> deploy_loop dm_refuse_sw2 (PBool False) [0, 1, 2] ([], 0, 0, 0) three_switches = Inr out
     \<and> loop_counts (Inr out) = Some (1, 1, 1)
     \<and> deploy_loop dm_refuse_sw2 (PBool False) [0] ([], 0, 0, 0) three_switches =
         Inr ((res1, ns1, nf1, nk1), st1)
     \<and> deploy_loop dm_refuse_sw2 (PBool False) [1, 2] (res1, ns1, nf1, nk1) st1 = Inr out
     \<and> ns1 = 1 \<and> nf1 = 0 \<and> nk1 = 0"
proof -
  let ?run = "deploy_all_devices dm_refuse_sw2 rate_blank three_switches (PBool False)"
  let ?loop = "deploy_loop dm_refuse_sw2 (PBool False) [0, 1, 2] ([], 0, 0, 0) three_switches"
  from eval_three_switches obtain r st' where
    run: "?run = Inr (r, st')"
    and counts: "total_devices r = 3" "successful r = 1" "failed r = 1" "skipped r = 1"
    by (cases ?run) (auto simp add: run_counts_def)
  from eval_loop_three_switches obtain out where
    loop: "?loop = Inr out" and lc: "loop_counts (Inr out) = Some (1, 1, 1)"
    by (cases ?loop) (auto simp add: loop_counts_def)
  from counters_partition [of dm_refuse_sw2 rate_blank three_switches "PBool False" r st'
      "PBool False" 0 "[1, 2]" "[]" 0 0 0 out] run loop
  obtain res1 ns1 nf1 nk1 st1 where
    sum: "total_devices r = successful r + failed r + skipped r"
    and one: "deploy_loop dm_refuse_sw2 (PBool False) [0] ([], 0, 0, 0) three_switches =
                Inr ((res1, ns1, nf1, nk1), st1)"
    and two: "deploy_loop dm_refuse_sw2 (PBool False) [1, 2] (res1, ns1, nf1, nk1) st1 = Inr out"
    by blast
  from one eval_loop_three_switches have "ns1 = 1" "nf1 = 0" "nk1 = 0"
    by (simp_all add: loop_counts_def)
  with run counts loop lc sum one two show ?thesis by blast
qed

text \<open>
  C7, as amended. For a device without an ip (absent, None or empty) and both values of
  the dry-run flag, \<^verbatim>\<open>deploy_device\<close> returns Failed with the message
  \<^verbatim>\<open>No IP address specified\<close>, and changes nothing. In the loop of
  \<^verbatim>\<open>deploy_all_devices\<close> such a device is counted in failed when it is attempted; when
  \<^verbatim>\<open>rollback_on_failure\<close> is on and a device has failed before, it is skipped as any
  device is, and counted in skipped.
\<close>

theorem missing_ip_fails:
  assumes "\<not> truthy (dict_get device_config ''ip'')"
  shows "deploy_device dm st device_config (PBool b) =
           Inr (failed_result (name_of device_config) ''No IP address specified'' 0
                  ''Missing device IP address'', device_config, st)
         \<and> (objects st ! a = device_config \<and> rollback_on_failure st = Inr rollback
              \<and> hashable (name_of device_config)
            \<longrightarrow> deploy_loop dm (PBool b) (a # rest) (res, ns, nf, nk) st =
                  (if truthy rollback \<and> 0 < nf then
                     deploy_loop dm (PBool b) rest
                       (AList.update (result_key (name_of device_config))
                          (skipped_result (name_of device_config)) res, ns, nf, nk + 1) st
                   else
                     deploy_loop dm (PBool b) rest
                       (AList.update (result_key (name_of device_config))
                          (failed_result (name_of device_config) ''No IP address specified'' 0
                             ''Missing device IP address'') res, ns, nf + 1, nk) st))"
proof (rule conjI, goal_cases)
  case 1
  from assms show ?case
    by (simp add: deploy_device_def deploy_device_try_def resolve_dry_run_def name_of_def Let_def)
next
  case 2
  have d: "deploy_device dm st device_config (PBool b) =
           Inr (failed_result (name_of device_config) ''No IP address specified'' 0
                  ''Missing device IP address'', device_config, st)"
    using assms
    by (simp add: deploy_device_def deploy_device_try_def resolve_dry_run_def name_of_def Let_def)
  show ?case
  proof (rule impI)
    assume h: "objects st ! a = device_config \<and> rollback_on_failure st = Inr rollback
                \<and> hashable (name_of device_config)"
    then have o: "objects st ! a = device_config" and rb: "rollback_on_failure st = Inr rollback"
      and k: "hashable (name_of device_config)"
      by simp_all
    have u: "st\<lparr>objects := (objects st)[a := objects st ! a]\<rparr> = st" by simp
    show "deploy_loop dm (PBool b) (a # rest) (res, ns, nf, nk) st =
                  (if truthy rollback \<and> 0 < nf then
                     deploy_loop dm (PBool b) rest
                       (AList.update (result_key (name_of device_config))
                          (skipped_result (name_of device_config)) res, ns, nf, nk + 1) st
                   else
                     deploy_loop dm (PBool b) rest
                       (AList.update (result_key (name_of device_config))
                          (failed_result (name_of device_config) ''No IP address specified'' 0
                             ''Missing device IP address'') res, ns, nf + 1, nk) st)"
    proof (cases "truthy rollback \<and> 0 < nf")
      case True
      then have t: "truthy rollback" and f: "0 < nf" by simp_all
      from loop_skip [OF rb t f, of dm "PBool b" a rest res ns nk] o
        results_set_hashable [OF k]
      have step: "deploy_loop dm (PBool b) (a # rest) (res, ns, nf, nk) st =
                    deploy_loop dm (PBool b) rest
                       (AList.update (result_key (name_of device_config))
                          (skipped_result (name_of device_config)) res, ns, nf, nk + 1) st"
        by (simp del: deploy_loop.simps)
      from True have c: "(truthy rollback \<and> 0 < nf) = True" by simp
      show ?thesis unfolding c if_True by (rule step)
    next
      case False
      from loop_attempt [OF rb False, of dm "PBool b" a rest res ns nk] o d u
        results_set_hashable [OF k]
      have step: "deploy_loop dm (PBool b) (a # rest) (res, ns, nf, nk) st =
                    deploy_loop dm (PBool b) rest
                       (AList.update (result_key (name_of device_config))
                          (failed_result (name_of device_config) ''No IP address specified'' 0
                             ''Missing device IP address'') res, ns, nf + 1, nk) st"
        by (simp add: failed_result_def del: deploy_loop.simps)
      from False have c: "(truthy rollback \<and> 0 < nf) = False" by simp
      show ?thesis unfolding c if_False by (rule step)
    qed
  qed
qed

lemma no_ip_orchestrator:
  "objects (orchestrator_with engine_ok [no_ip_device ''a'']) ! 0 = no_ip_device ''a''
   \<and> rollback_on_failure (orchestrator_with engine_ok [no_ip_device ''a'']) = Inr (PBool True)
   \<and> dm_trace (orchestrator_with engine_ok [no_ip_device ''a'']) = []"
  by (simp add: orchestrator_with_def rollback_on_failure_def py_get_def dict_get_default_def)

lemma no_ip_device_fields:
  "\<not> truthy (dict_get (no_ip_device ''a'') ''ip'') \<and> name_of (no_ip_device ''a'') = PStr ''a''"
  by (simp add: no_ip_device_def dict_get_def name_of_def dict_get_default_def)

theorem missing_ip_fails_witness:
  "\<not> truthy (dict_get (no_ip_device ''a'') ''ip'')
   \<and> device_outcome (deploy_device dm_always (orchestrator_with engine_ok [no_ip_device ''a''])
        (no_ip_device ''a'') (PBool False)) =
      Some (FAILED, ''No IP address specified'', Some ''Missing device IP address'', [])
   \<and> objects (orchestrator_with engine_ok [no_ip_device ''a'']) ! 0 = no_ip_device ''a''
   \<and> rollback_on_failure (orchestrator_with engine_ok [no_ip_device ''a'']) = Inr (PBool True)
   \<and> hashable (name_of (no_ip_device ''a''))
   \<and> loop_counts (deploy_loop dm_always (PBool False) [0] ([], 0, 0, 0)
        (orchestrator_with engine_ok [no_ip_device ''a''])) = Some (0, 1, 0)
   \<and> loop_counts (deploy_loop dm_always (PBool False) [0] ([], 0, 2, 0)
        (orchestrator_with engine_ok [no_ip_device ''a''])) = Some (0, 2, 1)"
proof -
  let ?st = "orchestrator_with engine_ok [no_ip_device ''a'']"
  let ?cfg = "no_ip_device ''a''"
  from no_ip_device_fields have ip: "\<not> truthy (dict_get ?cfg ''ip'')"
    and h: "hashable (name_of ?cfg)"
    by simp_all
  from no_ip_orchestrator h
  have pre: "objects ?st ! 0 = ?cfg \<and> rollback_on_failure ?st = Inr (PBool True)
             \<and> hashable (name_of ?cfg)"
    by simp
  from missing_ip_fails [OF ip, where dm = dm_always and st = "?st" and b = False]
  have "deploy_device dm_always ?st ?cfg (PBool False) =
           Inr (failed_result (name_of ?cfg) ''No IP address specified'' 0
                  ''Missing device IP address'', ?cfg, ?st)"
    by blast
  with no_ip_orchestrator
  have one: "device_outcome (deploy_device dm_always ?st ?cfg (PBool False)) =
      Some (FAILED, ''No IP address specified'', Some ''Missing device IP address'', [])"
    by (simp add: device_outcome_def failed_result_def)
  from missing_ip_fails [OF ip, where dm = dm_always and st = "?st" and b = False and a = 0
      and rollback = "PBool True" and rest = "[]" and res = "[]" and ns = 0 and nf = 0 and nk = 0]
    pre
  have eq2: "deploy_loop dm_always (PBool False) [0] ([], 0, 0, 0) ?st =
               deploy_loop dm_always (PBool False) []
                 (AList.update (result_key (name_of ?cfg))
                    (failed_result (name_of ?cfg) ''No IP address specified'' 0
                       ''Missing device IP address'') [], 0, 1, 0) ?st"
    by (simp del: deploy_loop.simps)
  have two: "loop_counts (deploy_loop dm_always (PBool False) [0] ([], 0, 0, 0) ?st)
               = Some (0, 1, 0)"
    unfolding eq2 by (simp add: loop_counts_def)
  from missing_ip_fails [OF ip, where dm = dm_always and st = "?st" and b = False and a = 0
      and rollback = "PBool True" and rest = "[]" and res = "[]" and ns = 0 and nf = 2 and nk = 0]
    pre
  have eq3: "deploy_loop dm_always (PBool False) [0] ([], 0, 2, 0) ?st =
               deploy_loop dm_always (PBool False) []
                 (AList.update (result_key (name_of ?cfg)) (skipped_result (name_of ?cfg)) [],
                  0, 2, 1) ?st"
    by (simp del: deploy_loop.simps)
  have three: "loop_counts (deploy_loop dm_always (PBool False) [0] ([], 0, 2, 0) ?st)
                 = Some (0, 2, 1)"
    unfolding eq3 by (simp add: loop_counts_def)
  from ip one pre two three show ?thesis by blast
qed

text \<open>
  C7, as stated, fails: two devices without an ip, \<^verbatim>\<open>rollback_on_failure\<close> at its
  default. The first is Failed; the second has no ip either and is Skipped, and
  counted in skipped.
\<close>

theorem missing_ip_device_skipped:
  "run_statuses (deploy_all_devices dm_always rate_blank
       (orchestrator_with engine_ok [no_ip_device ''a'', no_ip_device ''b'']) (PBool True)) =
     Some [(PStr ''a'', FAILED), (PStr ''b'', SKIPPED)]
   \<and> run_counts (deploy_all_devices dm_always rate_blank
       (orchestrator_with engine_ok [no_ip_device ''a'', no_ip_device ''b'']) (PBool True)) =
     Some (2, 0, 1, 1)
   \<and> dict_get (no_ip_device ''b'') ''ip'' = PNone"
  by code_simp

section \<open>Device dictionaries during a run\<close>

text \<open>
  C9 does not hold of the code. One device with \<^verbatim>\<open>device_type: huawei\<close> and
  \<^verbatim>\<open>role: core\<close>: after a dry run of \<^verbatim>\<open>deploy_all_devices\<close> the device's dictionary in
  \<^verbatim>\<open>self.devices\<close> has \<^verbatim>\<open>device_type: core\<close> and a new key \<^verbatim>\<open>template_name\<close>, which
  \<^verbatim>\<open>generate_config\<close> wrote into the dictionary it was given.
\<close>

theorem generate_config_overwrites_device:
  "dict_get (core_device ''sw1'') ''device_type'' = PStr ''huawei''
   \<and> map_of (core_device ''sw1'') ''template_name'' = None
   \<and> run_statuses (deploy_all_devices dm_always rate_blank
        (orchestrator_with engine_ok [core_device ''sw1'']) (PBool True)) =
      Some [(PStr ''sw1'', SUCCESS)]
   \<and> run_objects (deploy_all_devices dm_always rate_blank
        (orchestrator_with engine_ok [core_device ''sw1'']) (PBool True)) =
      Some [[(''ip'', PStr ''10.0.0.1''), (''device_type'', PStr ''core''),
             (''role'', PStr ''core''), (''template'', PStr ''core_switch''),
             (''name'', PStr ''sw1''), (''template_name'', PStr ''core_switch.j2'')]]"
  by code_simp

section \<open>The deployment sequence\<close>











end
